theory Spec2Isabelle
  imports Complex_Main
begin

section \<open>JavaScript values\<close>

text \<open>
  The request bodies, the nested sub-objects of a patient and the response bodies are
  JavaScript values. Numbers are the integer-valued ones; a property whose value is
  \<open>undefined\<close> is the same as an absent property for every test the handlers make
  (\<^verbatim>\<open>!== undefined\<close>, truthiness, \<^verbatim>\<open>||\<close>, \<^verbatim>\<open>JSON.stringify\<close>).
\<close>

datatype jsval =
    JUndefined
  | JNull
  | JBool bool
  | JNum int
  | JStr string
  | JArr "jsval list"
  | JObj "(string \<times> jsval) list"

text \<open>Truthiness, as \<^verbatim>\<open>if (v)\<close>, \<^verbatim>\<open>!v\<close> and \<^verbatim>\<open>v ? a : b\<close> read it.\<close>

fun truthy :: "jsval \<Rightarrow> bool" where
  "truthy JUndefined = False"
| "truthy JNull = False"
| "truthy (JBool b) = b"
| "truthy (JNum n) = (n \<noteq> 0)"
| "truthy (JStr s) = (s \<noteq> [])"
| "truthy (JArr xs) = True"
| "truthy (JObj kvs) = True"

text \<open>\<^verbatim>\<open>a || b\<close> and \<^verbatim>\<open>a && b\<close> on values.\<close>

definition js_or :: "jsval \<Rightarrow> jsval \<Rightarrow> jsval" where
  "js_or a b = (if truthy a then a else b)"

definition js_and :: "jsval \<Rightarrow> jsval \<Rightarrow> jsval" where
  "js_and a b = (if truthy a then b else a)"

text \<open>
  Property access \<^verbatim>\<open>v.k\<close> for the property names the handlers read. On a string, a
  number, a boolean or an array none of these names is defined. The handlers read a
  property of a value they have tested for truthiness, or of the metadata they wrote
  themselves as an object, so \<open>undefined\<close> and \<open>null\<close> are never dereferenced.
\<close>

fun get :: "jsval \<Rightarrow> string \<Rightarrow> jsval" where
  "get (JObj kvs) k = (case map_of kvs k of Some v \<Rightarrow> v | None \<Rightarrow> JUndefined)"
| "get v k = JUndefined"

text \<open>\<^verbatim>\<open>typeof v === 'object'\<close> (true of \<open>null\<close> as well) and \<^verbatim>\<open>Array.isArray(v)\<close>.\<close>

fun typeof_object :: "jsval \<Rightarrow> bool" where
  "typeof_object JNull = True"
| "typeof_object (JArr xs) = True"
| "typeof_object (JObj kvs) = True"
| "typeof_object v = False"

fun isArray :: "jsval \<Rightarrow> bool" where
  "isArray (JArr xs) = True"
| "isArray v = False"

text \<open>\<^verbatim>\<open>list.includes(v)\<close> for a list of string literals: strict equality.\<close>

definition js_includes :: "string list \<Rightarrow> jsval \<Rightarrow> bool" where
  "js_includes xs v = (case v of JStr s \<Rightarrow> s \<in> set xs | _ \<Rightarrow> False)"

section \<open>Strings\<close>

definition startsWith :: "string \<Rightarrow> string \<Rightarrow> bool" where
  "startsWith s p = (take (length p) s = p)"

definition upper_char :: "char \<Rightarrow> char" where
  "upper_char c =
     (case map_of (zip ''abcdefghijklmnopqrstuvwxyz'' ''ABCDEFGHIJKLMNOPQRSTUVWXYZ'') c of
        Some u \<Rightarrow> u | None \<Rightarrow> c)"

definition lower_char :: "char \<Rightarrow> char" where
  "lower_char c =
     (case map_of (zip ''ABCDEFGHIJKLMNOPQRSTUVWXYZ'' ''abcdefghijklmnopqrstuvwxyz'') c of
        Some l \<Rightarrow> l | None \<Rightarrow> c)"

text \<open>\<^verbatim>\<open>toUpperCase\<close> and \<^verbatim>\<open>toLowerCase\<close> on the ASCII letters.\<close>

definition toUpperCase :: "string \<Rightarrow> string" where
  "toUpperCase s = map upper_char s"

definition toLowerCase :: "string \<Rightarrow> string" where
  "toLowerCase s = map lower_char s"

section \<open>Responses\<close>

record response =
  res_status :: nat
  res_location :: "string option"
  res_body :: jsval

text \<open>
  \<^verbatim>\<open>handleError(res, status, message, errorCode = null, details = null)\<close>: the error
  envelope \<open>{code, message, errorCode?, details?}\<close>.
\<close>

definition handleError :: "nat \<Rightarrow> string \<Rightarrow> jsval \<Rightarrow> jsval \<Rightarrow> response" where
  "handleError st message errorCode details =
     \<lparr>res_status = st, res_location = None,
      res_body = JObj ([(''code'', JNum (int st)), (''message'', JStr message)]
               @ (if truthy errorCode then [(''errorCode'', errorCode)] else [])
               @ (if truthy details then [(''details'', details)] else []))\<rparr>"

section \<open>The content-type middleware\<close>

text \<open>
  What \<^verbatim>\<open>requireJson\<close> reads of a request: the method, the path, and whether
  \<^verbatim>\<open>req.is("application/json")\<close> is truthy (Express compares the media type of the
  Content-Type header).
\<close>

record request_head =
  req_method :: string
  req_path :: string
  req_is_json :: bool

datatype middleware = Next | Respond response

definition requireJson :: "request_head \<Rightarrow> middleware" where
  "requireJson req =
     (if startsWith (req_path req) ''/api/apic/'' then Next
      else if toUpperCase (req_method req) \<in> set [''POST'', ''PUT'', ''PATCH'']
              \<and> \<not> req_is_json req
           then Respond (handleError 415 ''Content-Type must be application/json''
                           (JStr ''INVALID_CONTENT_TYPE'') JNull)
      else Next)"

section \<open>The embedded store\<close>

text \<open>
  A column holds NULL, an integer or a text. \<open>SJson v\<close> is the text that
  \<^verbatim>\<open>JSON.stringify(v)\<close> writes; \<^verbatim>\<open>JSON.parse\<close> reads \<open>v\<close> back from it. The
  handlers write the JSON columns (address, primaryPhysician, insurance, diagnosisCodes,
  metadata, team, agency, lastOrder) with \<^verbatim>\<open>JSON.stringify\<close> or NULL only. A row
  maps column names to values; the table is the list of its rows in insertion order.
\<close>

datatype sqlval = SNull | SInt int | SText string | SJson jsval

type_synonym row = "string \<Rightarrow> sqlval"

type_synonym table = "row list"

text \<open>Decimal digits of a number, as \<^verbatim>\<open>String(n)\<close> and the store's text conversion.\<close>

fun dec_nat :: "nat \<Rightarrow> string" where
  "dec_nat n =
     (if n < 10 then [''0123456789'' ! n]
      else dec_nat (n div 10) @ [''0123456789'' ! (n mod 10)])"

declare dec_nat.simps [simp del]

definition dec :: "int \<Rightarrow> string" where
  "dec i = (if i < 0 then CHR ''-'' # dec_nat (nat (- i)) else dec_nat (nat i))"

fun join :: "string \<Rightarrow> string list \<Rightarrow> string" where
  "join sep [] = []"
| "join sep [x] = x"
| "join sep (x # y # ys) = x @ sep @ join sep (y # ys)"

text \<open>\<^verbatim>\<open>String(v)\<close>, which template literals and the driver apply to a value.\<close>

fun js_string :: "jsval \<Rightarrow> string" where
  "js_string JUndefined = ''undefined''"
| "js_string JNull = ''null''"
| "js_string (JBool b) = (if b then ''true'' else ''false'')"
| "js_string (JNum n) = dec n"
| "js_string (JStr s) = s"
| "js_string (JArr xs) =
     join '','' (map (\<lambda>x. if x = JUndefined \<or> x = JNull then [] else js_string x) xs)"
| "js_string (JObj kvs) = ''[object Object]''"

text \<open>
  The text of \<^verbatim>\<open>JSON.stringify(v)\<close>; quotes and backslashes are escaped. It is read
  only where the store compares or sorts a JSON column as text.
\<close>

definition json_quote :: "string \<Rightarrow> string" where
  "json_quote s =
     CHR 0x22 # concat (map (\<lambda>c. if c = CHR 0x22 \<or> c = CHR 0x5C then [CHR 0x5C, c] else [c]) s)
       @ [CHR 0x22]"

fun json_text :: "jsval \<Rightarrow> string" where
  "json_text JUndefined = ''null''"
| "json_text JNull = ''null''"
| "json_text (JBool b) = (if b then ''true'' else ''false'')"
| "json_text (JNum n) = dec n"
| "json_text (JStr s) = json_quote s"
| "json_text (JArr xs) = ''['' @ join '','' (map json_text xs) @ '']''"
| "json_text (JObj kvs) =
     ''{'' @ join '','' (map (\<lambda>(k, v). json_quote k @ '':'' @ json_text v)
                         (filter (\<lambda>(k, v). v \<noteq> JUndefined) kvs)) @ ''}''"

text \<open>
  The driver binds a statement parameter: a string as text, a number as a number, a
  boolean as 0 or 1, \<open>null\<close> and \<open>undefined\<close> as NULL, any other object as the text
  of \<^verbatim>\<open>String(v)\<close>.
\<close>

fun bind :: "jsval \<Rightarrow> sqlval" where
  "bind JUndefined = SNull"
| "bind JNull = SNull"
| "bind (JBool b) = SInt (if b then 1 else 0)"
| "bind (JNum n) = SInt n"
| "bind (JStr s) = SText s"
| "bind v = SText (js_string v)"

text \<open>\<^verbatim>\<open>v ? JSON.stringify(v) : null\<close> as a parameter.\<close>

definition json_param :: "jsval \<Rightarrow> sqlval" where
  "json_param v = (if truthy v then SJson v else SNull)"

text \<open>What JavaScript reads of a column: \<^verbatim>\<open>row.c\<close>.\<close>

fun js_of_sql :: "sqlval \<Rightarrow> jsval" where
  "js_of_sql SNull = JNull"
| "js_of_sql (SInt n) = JNum n"
| "js_of_sql (SText s) = JStr s"
| "js_of_sql (SJson v) = JStr (json_text v)"

text \<open>
  \<^verbatim>\<open>row.c ? JSON.parse(row.c) : undefined\<close> on a JSON column. A text that
  \<^verbatim>\<open>JSON.stringify\<close> did not write is outside the model (no handler writes one to
  these columns); it is read as \<^verbatim>\<open>safeParse\<close> of the later generation reads a
  malformed text, as the text itself.
\<close>

fun parse_col :: "sqlval \<Rightarrow> jsval" where
  "parse_col SNull = JUndefined"
| "parse_col (SJson v) = v"
| "parse_col (SText s) = (if s = [] then JUndefined else JStr s)"
| "parse_col (SInt n) = (if n = 0 then JUndefined else JNum n)"

text \<open>The text of a value, NULL excepted, and the store's \<open>=\<close>: NULL equals nothing.\<close>

fun sql_text :: "sqlval \<Rightarrow> string option" where
  "sql_text SNull = None"
| "sql_text (SInt n) = Some (dec n)"
| "sql_text (SText s) = Some s"
| "sql_text (SJson v) = Some (json_text v)"

fun sql_eq :: "sqlval \<Rightarrow> sqlval \<Rightarrow> bool" where
  "sql_eq SNull b = False"
| "sql_eq a SNull = False"
| "sql_eq (SInt a) (SInt b) = (a = b)"
| "sql_eq (SInt a) b = False"
| "sql_eq a (SInt b) = False"
| "sql_eq a b = (sql_text a = sql_text b)"

text \<open>
  Column affinity of the \<^verbatim>\<open>/api/v1\<close> patients table: \<open>isPinned\<close> is INTEGER, every
  other column is TEXT and stores a number as its decimal text.
\<close>

fun text_affinity :: "sqlval \<Rightarrow> sqlval" where
  "text_affinity (SInt n) = SText (dec n)"
| "text_affinity v = v"

definition column_affinity :: "string \<Rightarrow> sqlval \<Rightarrow> sqlval" where
  "column_affinity c v = (if c = ''isPinned'' then v else text_affinity v)"

text \<open>\<^verbatim>\<open>SET c1 = ?, c2 = ?, ...\<close> on one row, in the order written.\<close>

definition assign :: "(string \<times> sqlval) list \<Rightarrow> row \<Rightarrow> row" where
  "assign cvs r = fold (\<lambda>(c, v) r'. r'(c := column_affinity c v)) cvs r"

text \<open>\<^verbatim>\<open>firstName TEXT NOT NULL, lastName TEXT NOT NULL\<close>.\<close>

definition not_null_ok :: "row \<Rightarrow> bool" where
  "not_null_ok r = (r ''firstName'' \<noteq> SNull \<and> r ''lastName'' \<noteq> SNull)"

definition has_id :: "string \<Rightarrow> row \<Rightarrow> bool" where
  "has_id i r = sql_eq (r ''id'') (SText i)"

text \<open>\<^verbatim>\<open>db.get('SELECT ... FROM patients WHERE id = ?', [id])\<close>: the first such row.\<close>

definition select_by_id :: "table \<Rightarrow> string \<Rightarrow> row option" where
  "select_by_id db i = find (has_id i) db"

text \<open>
  \<^verbatim>\<open>UPDATE patients SET ... WHERE id = ?\<close>: the statement fails as a whole, changing
  nothing, when a row would break a NOT NULL constraint; otherwise it answers the number
  of rows changed and the new table.
\<close>

definition sql_update :: "table \<Rightarrow> string \<Rightarrow> (string \<times> sqlval) list \<Rightarrow> string + nat \<times> table" where
  "sql_update db i cvs =
     (if list_ex (\<lambda>r. has_id i r \<and> \<not> not_null_ok (assign cvs r)) db
      then Inl ''SQLITE_CONSTRAINT: NOT NULL constraint failed''
      else Inr (length (filter (has_id i) db),
                map (\<lambda>r. if has_id i r then assign cvs r else r) db))"

text \<open>
  \<^verbatim>\<open>INSERT INTO patients (c1, ...) VALUES (?, ...)\<close>: \<open>id\<close> is the primary key; a column
  the statement does not name is NULL.
\<close>

definition sql_insert :: "table \<Rightarrow> (string \<times> sqlval) list \<Rightarrow> string + table" where
  "sql_insert db cvs =
     (let r = assign cvs (\<lambda>c. SNull) in
      if \<not> not_null_ok r then Inl ''SQLITE_CONSTRAINT: NOT NULL constraint failed''
      else if list_ex (\<lambda>r'. sql_eq (r' ''id'') (r ''id'')) db
           then Inl ''SQLITE_CONSTRAINT: UNIQUE constraint failed: patients.id''
      else Inr (db @ [r]))"

text \<open>\<^verbatim>\<open>DELETE FROM patients WHERE id = ?\<close>: the number of rows removed, the new table.\<close>

definition sql_delete :: "table \<Rightarrow> string \<Rightarrow> nat \<times> table" where
  "sql_delete db i = (length (filter (has_id i) db), filter (\<lambda>r. \<not> has_id i r) db)"

section \<open>The request environment\<close>

text \<open>
  What a handler reads besides the body: the clock (\<^verbatim>\<open>new Date().toISOString()\<close>),
  the \<open>X-User\<close> header, the identifier \<^verbatim>\<open>randomUUID()\<close> hands out, and the host and
  protocol of the Location header.
\<close>

record env =
  env_now :: string
  env_user :: "string option"
  env_uuid :: string
  env_host :: "string option"
  env_proto :: string

text \<open>\<^verbatim>\<open>s || d\<close> for a header or query value that is a string or absent.\<close>

definition str_or :: "string option \<Rightarrow> string \<Rightarrow> string" where
  "str_or s d = (case s of None \<Rightarrow> d | Some x \<Rightarrow> if x = [] then d else x)"

section \<open>The \<^verbatim>\<open>/api/v1/patients\<close> handlers (admin shape)\<close>

text \<open>The white space that \<^verbatim>\<open>\s\<close> and \<^verbatim>\<open>trim()\<close> recognise, in ASCII.\<close>

definition is_space :: "char \<Rightarrow> bool" where
  "is_space c = (c \<in> set [CHR 0x20, CHR 0x09, CHR 0x0A, CHR 0x0B, CHR 0x0C, CHR 0x0D])"

definition splits_at :: "char \<Rightarrow> string \<Rightarrow> (string \<times> string) list" where
  "splits_at c s = [(take i s, drop (Suc i) s). i \<leftarrow> [0..<length s], s ! i = c]"

text \<open>\<^verbatim>\<open>/^\S+@\S+\.\S+$/.test(s)\<close>.\<close>

definition email_ok :: "string \<Rightarrow> bool" where
  "email_ok s =
     (list_all (\<lambda>c. \<not> is_space c) s \<and>
      list_ex (\<lambda>(pre, post). pre \<noteq> [] \<and>
                 list_ex (\<lambda>(mid, rest). mid \<noteq> [] \<and> rest \<noteq> []) (splits_at CHR ''.'' post))
              (splits_at CHR ''@'' s))"

definition rowToPatient :: "row option \<Rightarrow> jsval" where
  "rowToPatient r =
     (case r of None \<Rightarrow> JNull
      | Some row \<Rightarrow> JObj
         [(''id'', js_of_sql (row ''id'')),
          (''guid'', js_or (js_of_sql (row ''guid'')) JNull),
          (''firstName'', js_of_sql (row ''firstName'')),
          (''lastName'', js_of_sql (row ''lastName'')),
          (''dateOfBirth'', js_of_sql (row ''dateOfBirth'')),
          (''gender'', js_of_sql (row ''gender'')),
          (''phone'', js_of_sql (row ''phone'')),
          (''email'', js_or (js_of_sql (row ''email'')) JUndefined),
          (''address'', parse_col (row ''address'')),
          (''roomNumber'', js_or (js_of_sql (row ''roomNumber'')) JUndefined),
          (''bedNumber'', js_or (js_of_sql (row ''bedNumber'')) JUndefined),
          (''dischargeDate'', js_or (js_of_sql (row ''dischargeDate'')) JUndefined),
          (''primaryPhysician'', parse_col (row ''primaryPhysician'')),
          (''payer'', js_or (js_of_sql (row ''payer'')) JUndefined),
          (''insurance'', parse_col (row ''insurance'')),
          (''diagnosisCodes'', parse_col (row ''diagnosisCodes'')),
          (''status'', js_of_sql (row ''status'')),
          (''isPinned'', JBool (truthy (js_of_sql (row ''isPinned'')))),
          (''metadata'', parse_col (row ''metadata'')),
          (''team'', parse_col (row ''team'')),
          (''agency'', parse_col (row ''agency'')),
          (''lastOrder'', parse_col (row ''lastOrder''))])"

definition required_errors :: "jsval \<Rightarrow> string \<Rightarrow> string list" where
  "required_errors b suffix =
     concat (map (\<lambda>field. if \<not> truthy (get b field) then [field @ suffix] else [])
               [''firstName'', ''lastName'', ''insurance''])"

definition format_errors :: "jsval \<Rightarrow> string list" where
  "format_errors b =
     (if truthy (get b ''email'') \<and> \<not> email_ok (js_string (get b ''email''))
      then [''Invalid email format''] else [])
     @ (if truthy (get b ''gender'') \<and> \<not> js_includes [''MALE'', ''FEMALE'', ''OTHER''] (get b ''gender'')
        then [''Invalid gender''] else [])"

definition array_or_null :: "jsval \<Rightarrow> jsval" where
  "array_or_null v = (if isArray v then v else JNull)"

text \<open>The \<open>patient\<close> object that POST builds from the body.\<close>

definition new_patient :: "env \<Rightarrow> jsval \<Rightarrow> jsval" where
  "new_patient e b =
     (let createdAt = JStr (env_now e); createdBy = JStr (str_or (env_user e) ''system'') in
      JObj
        [(''id'', JStr (env_uuid e)),
         (''guid'', js_or (get b ''guid'') JNull),
         (''firstName'', get b ''firstName''),
         (''lastName'', get b ''lastName''),
         (''dateOfBirth'', js_or (get b ''dateOfBirth'') JNull),
         (''gender'', js_or (get b ''gender'') JNull),
         (''phone'', js_or (get b ''phone'') JNull),
         (''email'', js_or (get b ''email'') JNull),
         (''address'', js_or (get b ''address'') JNull),
         (''roomNumber'', js_or (get b ''roomNumber'') JNull),
         (''bedNumber'', js_or (get b ''bedNumber'') JNull),
         (''admissionDate'', get b ''admissionDate''),
         (''dischargeDate'', js_or (get b ''dischargeDate'') JNull),
         (''primaryPhysician'', js_or (get b ''primaryPhysician'') JNull),
         (''payer'', js_or (get b ''payer'') JNull),
         (''insurance'', get b ''insurance''),
         (''diagnosisCodes'', array_or_null (get b ''diagnosisCodes'')),
         (''status'', js_or (get b ''status'') (JStr ''ACTIVE'')),
         (''isPinned'', JNum (if truthy (get b ''isPinned'') then 1 else 0)),
         (''metadata'', JObj [(''createdAt'', createdAt), (''createdBy'', createdBy),
                             (''updatedAt'', createdAt), (''updatedBy'', createdBy)]),
         (''team'', js_or (get b ''team'') JNull),
         (''agency'', js_or (get b ''agency'') JNull),
         (''lastOrder'', js_or (get b ''lastOrder'') JNull)])"

text \<open>The parameters of the INSERT, column by column.\<close>

definition insert_params :: "jsval \<Rightarrow> (string \<times> sqlval) list" where
  "insert_params p =
     [(''id'', bind (get p ''id'')),
      (''guid'', bind (get p ''guid'')),
      (''firstName'', bind (get p ''firstName'')),
      (''lastName'', bind (get p ''lastName'')),
      (''dateOfBirth'', bind (get p ''dateOfBirth'')),
      (''gender'', bind (get p ''gender'')),
      (''phone'', bind (get p ''phone'')),
      (''email'', bind (get p ''email'')),
      (''address'', json_param (get p ''address'')),
      (''roomNumber'', bind (get p ''roomNumber'')),
      (''bedNumber'', bind (get p ''bedNumber'')),
      (''admissionDate'', bind (get p ''admissionDate'')),
      (''dischargeDate'', bind (get p ''dischargeDate'')),
      (''primaryPhysician'', json_param (get p ''primaryPhysician'')),
      (''payer'', bind (get p ''payer'')),
      (''insurance'', json_param (get p ''insurance'')),
      (''diagnosisCodes'', json_param (get p ''diagnosisCodes'')),
      (''status'', bind (get p ''status'')),
      (''isPinned'', SInt (if truthy (get p ''isPinned'') then 1 else 0)),
      (''metadata'', SJson (get p ''metadata'')),
      (''team'', json_param (get p ''team'')),
      (''agency'', json_param (get p ''agency'')),
      (''lastOrder'', json_param (get p ''lastOrder''))]"

text \<open>
  \<^verbatim>\<open>SELECT id FROM patients WHERE (firstName = ? AND lastName = ? AND dateOfBirth = ?)\<close>
  with the patient's three values as parameters.
\<close>

definition same_name_dob :: "jsval \<Rightarrow> row \<Rightarrow> bool" where
  "same_name_dob p r =
     (sql_eq (r ''firstName'') (text_affinity (bind (get p ''firstName''))) \<and>
      sql_eq (r ''lastName'') (text_affinity (bind (get p ''lastName''))) \<and>
      sql_eq (r ''dateOfBirth'') (text_affinity (bind (get p ''dateOfBirth''))))"

definition patient_location :: "env \<Rightarrow> string \<Rightarrow> string" where
  "patient_location e i =
     (case env_host e of
        None \<Rightarrow> ''/api/v1/patients/'' @ i
      | Some host \<Rightarrow>
          if host = [] then ''/api/v1/patients/'' @ i
          else env_proto e @ ''://'' @ host @ ''/api/v1/patients/'' @ i)"

definition createPatient :: "env \<Rightarrow> jsval \<Rightarrow> table \<Rightarrow> response \<times> table" where
  "createPatient e body0 db =
     (let b = js_or body0 (JObj []);
          errors = required_errors b '' is required'' @ format_errors b in
      if errors \<noteq> []
      then (handleError 400 ''Validation Failed'' (JStr ''VAL_ERR'') (JArr (map JStr errors)), db)
      else
        let p = new_patient e b in
        if list_ex (same_name_dob p) db
        then (handleError 409 ''Patient already exists'' (JStr ''DUP_PATIENT'')
                (JArr [JStr (''Patient with name '' @ js_string (get p ''firstName'') @ '' ''
                             @ js_string (get p ''lastName'') @ '' and DOB ''
                             @ js_string (get p ''dateOfBirth'') @ '' already exists'')]), db)
        else
          (case sql_insert db (insert_params p) of
             Inl msg \<Rightarrow> (handleError 500 msg JNull JNull, db)
           | Inr db' \<Rightarrow>
               (\<lparr>res_status = 201, res_location = Some (patient_location e (env_uuid e)), res_body = p\<rparr>, db')))"

text \<open>PUT: the parameters of the full UPDATE, column by column.\<close>

definition put_metadata :: "env \<Rightarrow> jsval \<Rightarrow> jsval" where
  "put_metadata e b =
     (let updatedAt = JStr (env_now e); updatedBy = JStr (str_or (env_user e) ''system'') in
      JObj [(''updatedAt'', updatedAt), (''updatedBy'', updatedBy),
            (''createdAt'',
               js_or (js_and (get b ''metadata'') (get (get b ''metadata'') ''createdAt'')) updatedAt),
            (''createdBy'',
               js_or (js_and (get b ''metadata'') (get (get b ''metadata'') ''createdBy'')) updatedBy)])"

definition put_params :: "env \<Rightarrow> jsval \<Rightarrow> (string \<times> sqlval) list" where
  "put_params e b =
     [(''guid'', bind (js_or (get b ''guid'') JNull)),
      (''firstName'', bind (get b ''firstName'')),
      (''lastName'', bind (get b ''lastName'')),
      (''dateOfBirth'', bind (js_or (get b ''dateOfBirth'') JNull)),
      (''gender'', bind (js_or (get b ''gender'') JNull)),
      (''phone'', bind (js_or (get b ''phone'') JNull)),
      (''email'', bind (js_or (get b ''email'') JNull)),
      (''address'', json_param (get b ''address'')),
      (''roomNumber'', bind (js_or (get b ''roomNumber'') JNull)),
      (''bedNumber'', bind (js_or (get b ''bedNumber'') JNull)),
      (''admissionDate'', bind (get b ''admissionDate'')),
      (''dischargeDate'', bind (js_or (get b ''dischargeDate'') JNull)),
      (''primaryPhysician'', json_param (get b ''primaryPhysician'')),
      (''payer'', bind (js_or (get b ''payer'') JNull)),
      (''insurance'', json_param (get b ''insurance'')),
      (''diagnosisCodes'', json_param (array_or_null (get b ''diagnosisCodes''))),
      (''status'', bind (js_or (get b ''status'') (JStr ''ACTIVE''))),
      (''isPinned'', SInt (if truthy (get b ''isPinned'') then 1 else 0)),
      (''metadata'', SJson (put_metadata e b)),
      (''team'', json_param (get b ''team'')),
      (''agency'', json_param (get b ''agency'')),
      (''lastOrder'', json_param (get b ''lastOrder''))]"

definition replacePatient :: "env \<Rightarrow> string \<Rightarrow> jsval \<Rightarrow> table \<Rightarrow> response \<times> table" where
  "replacePatient e i body0 db =
     (let b = js_or body0 (JObj []) in
      if i = [] then (handleError 400 ''Invalid id'' JNull JNull, db)
      else
        let errors = required_errors b '' is required for full update'' @ format_errors b in
        if errors \<noteq> []
        then (handleError 400 ''Validation Failed'' (JStr ''VAL_ERR'') (JArr (map JStr errors)), db)
        else
          (case sql_update db i (put_params e b) of
             Inl msg \<Rightarrow> (handleError 500 msg JNull JNull, db)
           | Inr (changes, db') \<Rightarrow>
               if changes = 0 then (handleError 404 ''Patient not found'' JNull JNull, db')
               else (\<lparr>res_status = 200, res_location = None,
                      res_body = rowToPatient (select_by_id db' i)\<rparr>, db')))"

text \<open>
  PATCH: one step per line \<^verbatim>\<open>if (body.c !== undefined) add('c', ...)\<close> of the handler,
  in the handler's order. A step adds the column's new value to the field list, or ends
  the request with a 400 (the two enum-checked columns).
\<close>

datatype patch_step =
    Raw string
  | Enum string "string list" string
  | Json string
  | JsonArray string
  | Flag string

fun step_column :: "patch_step \<Rightarrow> string" where
  "step_column (Raw c) = c"
| "step_column (Enum c allowed msg) = c"
| "step_column (Json c) = c"
| "step_column (JsonArray c) = c"
| "step_column (Flag c) = c"

fun step_value :: "patch_step \<Rightarrow> jsval \<Rightarrow> sqlval" where
  "step_value (Raw c) v = bind v"
| "step_value (Enum c allowed msg) v = bind v"
| "step_value (Json c) v = json_param v"
| "step_value (JsonArray c) v = (if isArray v then SJson v else SNull)"
| "step_value (Flag c) v = SInt (if truthy v then 1 else 0)"

fun step_rejects :: "patch_step \<Rightarrow> jsval \<Rightarrow> string option" where
  "step_rejects (Enum c allowed msg) v = (if \<not> js_includes allowed v then Some msg else None)"
| "step_rejects s v = None"

definition patch_steps :: "patch_step list" where
  "patch_steps =
     [Raw ''firstName'', Raw ''lastName'', Raw ''dateOfBirth'',
      Enum ''gender'' [''MALE'', ''FEMALE'', ''OTHER''] ''Invalid gender'',
      Raw ''phone'', Raw ''email'', Json ''address'', Raw ''roomNumber'', Raw ''bedNumber'',
      Raw ''admissionDate'', Raw ''dischargeDate'', Json ''primaryPhysician'', Raw ''payer'',
      Json ''insurance'', JsonArray ''diagnosisCodes'',
      Enum ''status'' [''ACTIVE'', ''DISCHARGED'', ''PENDING''] ''Invalid status'',
      Flag ''isPinned'', Json ''team'', Json ''agency'', Json ''lastOrder'']"

fun collect_fields ::
  "jsval \<Rightarrow> patch_step list \<Rightarrow> (string \<times> sqlval) list \<Rightarrow> response + (string \<times> sqlval) list" where
  "collect_fields b [] fs = Inr fs"
| "collect_fields b (s # ss) fs =
     (let v = get b (step_column s) in
      if v = JUndefined then collect_fields b ss fs
      else (case step_rejects s v of
              Some msg \<Rightarrow> Inl (handleError 400 msg JNull JNull)
            | None \<Rightarrow> collect_fields b ss (fs @ [(step_column s, step_value s v)])))"

text \<open>
  \<^verbatim>\<open>try { existingMeta = mRow.metadata ? JSON.parse(mRow.metadata) : {} } catch (e) { existingMeta = {} }\<close>
\<close>

definition existing_meta :: "row \<Rightarrow> jsval" where
  "existing_meta mRow = (case mRow ''metadata'' of SJson v \<Rightarrow> v | _ \<Rightarrow> JObj [])"

definition merged_meta :: "env \<Rightarrow> jsval \<Rightarrow> jsval" where
  "merged_meta e existingMeta =
     (let updatedAt = JStr (env_now e); updatedBy = JStr (str_or (env_user e) ''system'') in
      JObj [(''createdAt'', js_or (get existingMeta ''createdAt'') updatedAt),
            (''createdBy'', js_or (get existingMeta ''createdBy'') updatedBy),
            (''updatedAt'', updatedAt), (''updatedBy'', updatedBy)])"

definition patchPatient :: "env \<Rightarrow> string \<Rightarrow> jsval \<Rightarrow> table \<Rightarrow> response \<times> table" where
  "patchPatient e i body0 db =
     (if i = [] then (handleError 400 ''Invalid id'' JNull JNull, db)
      else
        let b = js_or body0 (JObj []) in
        (case collect_fields b patch_steps [] of
           Inl err \<Rightarrow> (err, db)
         | Inr fs \<Rightarrow>
             if fs = [] then (handleError 400 ''No updatable fields provided'' JNull JNull, db)
             else
               (case select_by_id db i of
                  None \<Rightarrow> (handleError 404 ''Patient not found'' JNull JNull, db)
                | Some mRow \<Rightarrow>
                    (case sql_update db i
                            (fs @ [(''metadata'', SJson (merged_meta e (existing_meta mRow)))]) of
                       Inl msg \<Rightarrow> (handleError 500 msg JNull JNull, db)
                     | Inr (changes, db') \<Rightarrow>
                         if changes = 0 then (handleError 404 ''Patient not found'' JNull JNull, db')
                         else (\<lparr>res_status = 200, res_location = None,
                                res_body = rowToPatient (select_by_id db' i)\<rparr>, db')))))"

definition getPatient :: "string \<Rightarrow> table \<Rightarrow> response" where
  "getPatient i db =
     (if i = [] then handleError 400 ''Invalid id'' JNull JNull
      else (case select_by_id db i of
              None \<Rightarrow> handleError 404 ''Patient not found'' JNull JNull
            | Some row \<Rightarrow> \<lparr>res_status = 200, res_location = None, res_body = rowToPatient (Some row)\<rparr>))"

definition deletePatient :: "string \<Rightarrow> table \<Rightarrow> response \<times> table" where
  "deletePatient i db =
     (if i = [] then (handleError 400 ''Invalid id'' JNull JNull, db)
      else (case sql_delete db i of
              (changes, db') \<Rightarrow>
                if changes = 0 then (handleError 404 ''Patient not found'' JNull JNull, db')
                else (\<lparr>res_status = 204, res_location = None, res_body = JUndefined\<rparr>, db')))"

section \<open>Projections\<close>

text \<open>\<^verbatim>\<open>rowToPatientSearch\<close> of the admin-shape generation: the legacy/search shape.\<close>

definition rowToPatientSearch :: "row option \<Rightarrow> jsval" where
  "rowToPatientSearch r =
     (case r of None \<Rightarrow> JNull
      | Some row \<Rightarrow>
          let pat = rowToPatient (Some row);
              ins = get pat ''insurance'';
              payerObj =
                (if truthy ins
                 then JObj [(''payerTypeName'', js_or (get pat ''payer'') (JStr ''Private Insurance/Self Pay'')),
                            (''planName'', js_or (get ins ''providerName'') (JStr ''Unknown'')),
                            (''planId'', js_or (get ins ''policyNumber'') JUndefined),
                            (''groupNumber'', js_or (get ins ''groupNumber'') JUndefined)]
                 else JUndefined)
          in JObj [(''patientId'', get pat ''id''),
                   (''firstName'', get pat ''firstName''),
                   (''lastName'', get pat ''lastName''),
                   (''dob'', get pat ''dateOfBirth''),
                   (''team'', if truthy (get pat ''team'') then get (get pat ''team'') ''name''
                              else JUndefined),
                   (''isPinned'', get pat ''isPinned''),
                   (''lastOrder'', get pat ''lastOrder''),
                   (''payer'', payerObj)])"

text \<open>
  The later generation (list-item shape). \<^verbatim>\<open>safeParse(val)\<close>: \<open>undefined\<close> for a falsy
  column, the parsed value, or the text itself when it is not JSON.
\<close>

definition safeParse :: "sqlval \<Rightarrow> jsval" where
  "safeParse val = parse_col val"

definition rowToPatient_safe :: "row option \<Rightarrow> jsval" where
  "rowToPatient_safe r =
     (case r of None \<Rightarrow> JNull
      | Some row \<Rightarrow> JObj
         [(''id'', js_of_sql (row ''id'')),
          (''guid'', js_or (js_of_sql (row ''guid'')) JNull),
          (''firstName'', js_of_sql (row ''firstName'')),
          (''lastName'', js_of_sql (row ''lastName'')),
          (''dateOfBirth'', js_of_sql (row ''dateOfBirth'')),
          (''gender'', js_of_sql (row ''gender'')),
          (''phone'', js_of_sql (row ''phone'')),
          (''email'', js_or (js_of_sql (row ''email'')) JUndefined),
          (''address'', safeParse (row ''address'')),
          (''roomNumber'', js_or (js_of_sql (row ''roomNumber'')) JUndefined),
          (''bedNumber'', js_or (js_of_sql (row ''bedNumber'')) JUndefined),
          (''dischargeDate'', js_or (js_of_sql (row ''dischargeDate'')) JUndefined),
          (''primaryPhysician'', safeParse (row ''primaryPhysician'')),
          (''payer'', js_or (js_of_sql (row ''payer'')) JUndefined),
          (''insurance'', safeParse (row ''insurance'')),
          (''diagnosisCodes'', safeParse (row ''diagnosisCodes'')),
          (''status'', js_of_sql (row ''status'')),
          (''isPinned'', JBool (truthy (js_of_sql (row ''isPinned'')))),
          (''metadata'', safeParse (row ''metadata'')),
          (''team'', safeParse (row ''team'')),
          (''agency'', safeParse (row ''agency'')),
          (''lastOrder'', safeParse (row ''lastOrder''))])"

text \<open>\<^verbatim>\<open>s.split(c)\<close> and \<^verbatim>\<open>parts[i]\<close>, which is \<open>undefined\<close> past the end.\<close>

fun split_on :: "char \<Rightarrow> string \<Rightarrow> string list" where
  "split_on c [] = [[]]"
| "split_on c (x # xs) =
     (if x = c then [] # split_on c xs
      else (case split_on c xs of [] \<Rightarrow> [[x]] | p # ps \<Rightarrow> (x # p) # ps))"

definition part :: "string list \<Rightarrow> nat \<Rightarrow> jsval" where
  "part ps i = (if i < length ps then JStr (ps ! i) else JUndefined)"

text \<open>\<^verbatim>\<open>{ ...v }\<close> of an object or an array (an array spreads into its indices).\<close>

fun spread :: "jsval \<Rightarrow> (string \<times> jsval) list" where
  "spread (JObj kvs) = kvs"
| "spread (JArr xs) = zip (map dec_nat [0..<length xs]) xs"
| "spread v = []"

text \<open>\<^verbatim>\<open>obj.k = v\<close> on a property the object has.\<close>

definition set_prop :: "string \<Rightarrow> jsval \<Rightarrow> (string \<times> jsval) list \<Rightarrow> (string \<times> jsval) list" where
  "set_prop k v kvs = map (\<lambda>(k', x). if k' = k then (k', v) else (k', x)) kvs"

text \<open>
  The last order of the legacy shape: a date that contains \<open>-\<close> is split at \<open>-\<close> and
  rewritten as \<open>m/d/y\<close> from its first three parts. \<^verbatim>\<open>date.includes\<close> is not a
  function of a number, a boolean or an object, and \<^verbatim>\<open>split\<close> is none of an array:
  the TypeError is the left result.
\<close>

definition legacy_lastOrder :: "jsval \<Rightarrow> string + jsval" where
  "legacy_lastOrder lastOrder =
     (if \<not> truthy lastOrder then Inr JUndefined
      else
        let lastOrderV2 = spread (if typeof_object lastOrder then lastOrder else JObj []);
            date = get (JObj lastOrderV2) ''date''
        in if \<not> truthy date then Inr (JObj lastOrderV2)
           else (case date of
                   JStr s \<Rightarrow>
                     if CHR ''-'' \<in> set s
                     then let ps = split_on CHR ''-'' s
                          in Inr (JObj (set_prop ''date''
                                  (JStr (js_string (part ps 1) @ ''/'' @ js_string (part ps 2)
                                         @ ''/'' @ js_string (part ps 0))) lastOrderV2))
                     else Inr (JObj lastOrderV2)
                 | JArr xs \<Rightarrow>
                     if JStr ''-'' \<in> set xs
                     then Inl ''TypeError: lastOrderV2.date.split is not a function''
                     else Inr (JObj lastOrderV2)
                 | _ \<Rightarrow> Inl ''TypeError: lastOrderV2.date.includes is not a function''))"

text \<open>
  The date of birth of the legacy shape: rewritten as \<open>MM/DD/YYYY\<close> when it contains
  \<open>-\<close>, splits into exactly three parts and the first has four characters.
\<close>

definition legacy_dob :: "jsval \<Rightarrow> string + jsval" where
  "legacy_dob dob =
     (if \<not> truthy dob then Inr dob
      else (case dob of
              JStr s \<Rightarrow>
                if CHR ''-'' \<in> set s
                then let parts = split_on CHR ''-'' s
                     in if length parts = 3 \<and> length (parts ! 0) = 4
                        then Inr (JStr (parts ! 1 @ ''/'' @ parts ! 2 @ ''/'' @ parts ! 0))
                        else Inr dob
                else Inr dob
            | JArr xs \<Rightarrow>
                if JStr ''-'' \<in> set xs
                then Inl ''TypeError: formattedDob.split is not a function''
                else Inr dob
            | _ \<Rightarrow> Inl ''TypeError: formattedDob.includes is not a function''))"

definition rowToPatientLegacy :: "row option \<Rightarrow> string + jsval" where
  "rowToPatientLegacy r =
     (case r of None \<Rightarrow> Inr JNull
      | Some row \<Rightarrow>
          let pat = rowToPatient_safe (Some row);
              ins = get pat ''insurance'';
              payerObj =
                (if truthy ins
                 then JObj [(''payerTypeName'', js_or (get pat ''payer'') (JStr ''Private Insurance/Self Pay'')),
                            (''planName'', js_or (get ins ''providerName'') (JStr ''Unknown'')),
                            (''planId'', js_or (get ins ''policyNumber'') JUndefined),
                            (''groupNumber'', js_or (get ins ''groupNumber'') JUndefined)]
                 else JUndefined)
          in (case legacy_lastOrder (get pat ''lastOrder'') of
                Inl err \<Rightarrow> Inl err
              | Inr lastOrderV2 \<Rightarrow>
                  (case legacy_dob (get pat ''dateOfBirth'') of
                     Inl err \<Rightarrow> Inl err
                   | Inr formattedDob \<Rightarrow>
                       Inr (JObj [(''patientId'', get pat ''id''),
                                  (''firstName'', get pat ''firstName''),
                                  (''lastName'', get pat ''lastName''),
                                  (''dob'', formattedDob),
                                  (''team'', if truthy (get pat ''team'') \<and> typeof_object (get pat ''team'')
                                             then get (get pat ''team'') ''name''
                                             else get pat ''team''),
                                  (''isPinned'', get pat ''isPinned''),
                                  (''lastOrder'', lastOrderV2),
                                  (''payer'', payerObj)]))))"

definition rowToPatientListItem :: "row option \<Rightarrow> jsval" where
  "rowToPatientListItem r =
     (case r of None \<Rightarrow> JNull
      | Some row \<Rightarrow>
          let pat = rowToPatient_safe (Some row);
              priority = JStr (if truthy (get pat ''isPinned'') then ''Pinned'' else ''Normal'');
              t = get pat ''team'';
              team = (if truthy t
                      then JObj [(''teamId'', js_or (js_or (get t ''teamId'') (get t ''id'')) (JStr ''team-1'')),
                                 (''name'', get t ''name'')]
                      else JNull);
              ins = get pat ''insurance'';
              primaryPayer =
                (if truthy ins \<and> typeof_object ins
                 then JObj [(''payerId'', js_or (get ins ''payerId'') (JStr ''payer-unknown'')),
                            (''payerType'', js_or (get ins ''payerType'') (JStr ''Insurance'')),
                            (''displayName'',
                               js_or (js_or (get ins ''displayName'') (get ins ''providerName''))
                                     (JStr ''Unknown''))]
                 else if truthy (get pat ''payer'')
                 then JObj [(''payerId'', JStr ''payer-legacy''), (''payerType'', JStr ''Insurance''),
                            (''displayName'', get pat ''payer'')]
                 else JNull);
              lo = get pat ''lastOrder'';
              lastOrder =
                (if truthy lo \<and> typeof_object lo
                 then JObj [(''orderNumber'', js_or (get lo ''orderNumber'') (get lo ''id'')),
                            (''status'', get lo ''status''),
                            (''orderDate'', js_or (get lo ''orderDate'') (get lo ''date'')),
                            (''displayText'',
                               js_or (get lo ''displayText'')
                                 (JStr (js_string (js_or (get lo ''orderNumber'') (get lo ''id''))
                                        @ '' - '' @ js_string (get lo ''status''))))]
                 else JNull)
          in JObj [(''patientKey'', get pat ''id''),
                   (''patientId'', js_or (get pat ''guid'') (get pat ''id'')),
                   (''firstName'', get pat ''firstName''),
                   (''lastName'', get pat ''lastName''),
                   (''dateOfBirth'', get pat ''dateOfBirth''),
                   (''priority'', priority),
                   (''team'', team),
                   (''primaryPayer'', primaryPayer),
                   (''lastOrder'', lastOrder)])"

section \<open>The later \<^verbatim>\<open>/api/v1/patients\<close> create (payer or insurance)\<close>

text \<open>
  What a handler of this generation leaves behind: the response it sent, or the
  exception it threw before sending one.
\<close>

datatype outcome = Sent response | Thrown string

definition errors_later :: "jsval \<Rightarrow> string list" where
  "errors_later b =
     (if \<not> truthy (get b ''patientId'') \<and> \<not> truthy (get b ''id'') then [''patientId is required''] else [])
     @ (if \<not> truthy (get b ''firstName'') then [''firstName is required''] else [])
     @ (if \<not> truthy (get b ''lastName'') then [''lastName is required''] else [])
     @ (if \<not> truthy (get b ''payer'') \<and> \<not> truthy (get b ''insurance'') then [''payer is required''] else [])
     @ format_errors b"

text \<open>\<open>insuranceObj\<close> and \<open>payerType\<close>: a payer object becomes the stored insurance.\<close>

definition payer_converts :: "jsval \<Rightarrow> bool" where
  "payer_converts b =
     (truthy (get b ''payer'') \<and> typeof_object (get b ''payer'') \<and> \<not> truthy (get b ''insurance''))"

definition insuranceObj :: "jsval \<Rightarrow> jsval" where
  "insuranceObj b =
     (if payer_converts b
      then JObj [(''providerName'', get (get b ''payer'') ''planName''),
                 (''policyNumber'', get (get b ''payer'') ''planId''),
                 (''groupNumber'', get (get b ''payer'') ''groupNumber'')]
      else get b ''insurance'')"

definition payerType :: "jsval \<Rightarrow> jsval" where
  "payerType b =
     (if payer_converts b then get (get b ''payer'') ''payerTypeName''
      else if truthy (js_and (get b ''payer'') (get (get b ''payer'') ''payerTypeName''))
           then get (get b ''payer'') ''payerTypeName''
      else js_or (get b ''payer'') JNull)"

definition patient_id_later :: "env \<Rightarrow> jsval \<Rightarrow> jsval" where
  "patient_id_later e b = js_or (get b ''patientId'') (js_or (get b ''id'') (JStr (env_uuid e)))"

definition patient_later :: "env \<Rightarrow> jsval \<Rightarrow> jsval" where
  "patient_later e b =
     (let createdAt = JStr (env_now e); createdBy = JStr (str_or (env_user e) ''system'') in
      JObj
        [(''id'', patient_id_later e b),
         (''guid'', js_or (get b ''guid'') JNull),
         (''firstName'', get b ''firstName''),
         (''lastName'', get b ''lastName''),
         (''dateOfBirth'', js_or (get b ''dob'') (js_or (get b ''dateOfBirth'') JNull)),
         (''gender'', js_or (get b ''gender'') JNull),
         (''phone'', js_or (get b ''phone'') JNull),
         (''email'', js_or (get b ''email'') JNull),
         (''address'', js_or (get b ''address'') JNull),
         (''roomNumber'', js_or (get b ''roomNumber'') JNull),
         (''bedNumber'', js_or (get b ''bedNumber'') JNull),
         (''admissionDate'', get b ''admissionDate''),
         (''dischargeDate'', js_or (get b ''dischargeDate'') JNull),
         (''primaryPhysician'', js_or (get b ''primaryPhysician'') JNull),
         (''payer'', payerType b),
         (''insurance'', insuranceObj b),
         (''diagnosisCodes'', array_or_null (get b ''diagnosisCodes'')),
         (''status'', js_or (get b ''status'') (JStr ''ACTIVE'')),
         (''isPinned'', JNum (if truthy (get b ''isPinned'') then 1 else 0)),
         (''metadata'', JObj [(''createdAt'', createdAt), (''createdBy'', createdBy),
                             (''updatedAt'', createdAt), (''updatedBy'', createdBy)]),
         (''team'', if truthy (get b ''team'')
                    then (case get b ''team'' of JStr t \<Rightarrow> JObj [(''name'', JStr t)] | v \<Rightarrow> v)
                    else JNull),
         (''agency'', js_or (get b ''agency'') JNull),
         (''lastOrder'', js_or (get b ''lastOrder'') JNull)])"

text \<open>
  The duplicate check of this generation is by id only. After the INSERT the handler
  calls \<^verbatim>\<open>rowToPatientSearch\<close>, which this generation never defines: the row is
  stored and the callback throws a ReferenceError.
\<close>

definition createPatient_later :: "env \<Rightarrow> jsval \<Rightarrow> table \<Rightarrow> outcome \<times> table" where
  "createPatient_later e body0 db =
     (let b = js_or body0 (JObj []); errors = errors_later b in
      if errors \<noteq> []
      then (Sent (handleError 400 ''Validation Failed'' (JStr ''VAL_ERR'') (JArr (map JStr errors))), db)
      else
        let p = patient_later e b in
        if list_ex (\<lambda>r. sql_eq (r ''id'') (text_affinity (bind (get p ''id'')))) db
        then (Sent (handleError 409 ''Patient already exists'' (JStr ''DUP_PATIENT'')
                (JArr [JStr (''Patient with ID '' @ js_string (get p ''id'') @ '' already exists'')])), db)
        else
          (case sql_insert db (insert_params p) of
             Inl msg \<Rightarrow> (Sent (handleError 500 msg JNull JNull), db)
           | Inr db' \<Rightarrow> (Thrown ''ReferenceError: rowToPatientSearch is not defined'', db')))"

section \<open>Listing and searching\<close>

text \<open>
  A numeric query parameter after \<^verbatim>\<open>Number(req.query.p)\<close>: absent, not a number, or
  an integer (fractional page numbers and sizes are outside the model). The other
  parameters and the two headers the search reads are strings or absent.
\<close>

datatype qnum = QAbsent | QNaN | QInt int

record query =
  q_q :: "string option"
  q_pageNo :: qnum
  q_pageSize :: qnum
  q_sortBy :: "string option"
  q_sortMethod :: "string option"
  q_sortDir :: "string option"
  q_isPinned :: "string option"
  q_soldTo :: "string option"
  h_authorization :: "string option"
  h_ping_authorization :: "string option"

text \<open>\<^verbatim>\<open>Number(p) || d\<close>: the default replaces NaN and 0.\<close>

fun number_or :: "qnum \<Rightarrow> int \<Rightarrow> int" where
  "number_or (QInt n) d = (if n = 0 then d else n)"
| "number_or v d = d"

definition trim :: "string \<Rightarrow> string" where
  "trim s = rev (dropWhile is_space (rev (dropWhile is_space s)))"

text \<open>\<^verbatim>\<open>Math.ceil(totalRecords / pageSize)\<close>.\<close>

definition math_ceil_div :: "nat \<Rightarrow> int \<Rightarrow> int" where
  "math_ceil_div n pageSize = \<lceil>real n / real_of_int pageSize\<rceil>"

text \<open>
  \<open>LIKE\<close> of the store: \<open>%\<close> matches any run of characters, \<open>_\<close> any one character,
  letters match whatever their case.
\<close>

fun like :: "string \<Rightarrow> string \<Rightarrow> bool" where
  "like [] s = (s = [])"
| "like (p # ps) s =
     (if p = CHR ''%''
      then (like ps s \<or> (case s of [] \<Rightarrow> False | c # cs \<Rightarrow> like (p # ps) cs))
      else (case s of [] \<Rightarrow> False
            | c # cs \<Rightarrow> (p = CHR ''_'' \<or> lower_char p = lower_char c) \<and> like ps cs))"

definition coalesce :: "sqlval \<Rightarrow> string" where
  "coalesce v = (case sql_text v of None \<Rightarrow> [] | Some t \<Rightarrow> t)"

text \<open>
  \<^verbatim>\<open>LOWER(firstName || ' ' || lastName || ' ' || COALESCE(guid,'') || ' ' || COALESCE(email,'')) LIKE ?\<close>:
  a NULL first or last name makes the whole text NULL, which matches nothing.
\<close>

definition name_like :: "string \<Rightarrow> row \<Rightarrow> bool" where
  "name_like pat r =
     (case (sql_text (r ''firstName''), sql_text (r ''lastName'')) of
        (Some f, Some l) \<Rightarrow>
          like pat (toLowerCase (f @ '' '' @ l @ '' '' @ coalesce (r ''guid'') @ '' ''
                                 @ coalesce (r ''email'')))
      | _ \<Rightarrow> False)"

text \<open>The order of the store: NULL first, then numbers, then texts byte by byte.\<close>

fun text_le :: "string \<Rightarrow> string \<Rightarrow> bool" where
  "text_le [] t = True"
| "text_le (x # xs) [] = False"
| "text_le (x # xs) (y # ys) =
     (if x = y then text_le xs ys else (of_char x :: nat) < of_char y)"

fun sql_le :: "sqlval \<Rightarrow> sqlval \<Rightarrow> bool" where
  "sql_le SNull b = True"
| "sql_le a SNull = False"
| "sql_le (SInt x) (SInt y) = (x \<le> y)"
| "sql_le (SInt x) b = True"
| "sql_le a (SInt y) = False"
| "sql_le a b = text_le (coalesce a) (coalesce b)"

fun insert_by :: "('a \<Rightarrow> 'a \<Rightarrow> bool) \<Rightarrow> 'a \<Rightarrow> 'a list \<Rightarrow> 'a list" where
  "insert_by le x [] = [x]"
| "insert_by le x (y # ys) = (if le x y then x # y # ys else y # insert_by le x ys)"

definition sort_by :: "('a \<Rightarrow> 'a \<Rightarrow> bool) \<Rightarrow> 'a list \<Rightarrow> 'a list" where
  "sort_by le xs = foldr (insert_by le) xs []"

text \<open>\<^verbatim>\<open>ORDER BY column direction\<close>.\<close>

definition order_by :: "string \<Rightarrow> string \<Rightarrow> table \<Rightarrow> table" where
  "order_by column direction rows =
     sort_by (\<lambda>a b. if direction = ''DESC'' then sql_le (b column) (a column)
                     else sql_le (a column) (b column)) rows"

text \<open>
  \<^verbatim>\<open>SELECT * FROM patients WHERE ... ORDER BY ... LIMIT ? OFFSET ?\<close> and
  \<^verbatim>\<open>SELECT COUNT(*) FROM patients WHERE ...\<close> over one predicate.
\<close>

definition scan :: "(row \<Rightarrow> bool) \<Rightarrow> string \<Rightarrow> string \<Rightarrow> int \<Rightarrow> int \<Rightarrow> table \<Rightarrow> table" where
  "scan wh column direction limit offset db =
     take (nat limit) (drop (nat offset) (order_by column direction (filter wh db)))"

definition count_rows :: "(row \<Rightarrow> bool) \<Rightarrow> table \<Rightarrow> nat" where
  "count_rows wh db = length (filter wh db)"

subsection \<open>\<^verbatim>\<open>GET /api/v1/patients\<close> (lenient)\<close>

definition query_text :: "query \<Rightarrow> string" where
  "query_text qu = trim (case q_q qu of None \<Rightarrow> [] | Some s \<Rightarrow> s)"

definition list_pageNo :: "query \<Rightarrow> int" where
  "list_pageNo qu = max 1 (number_or (q_pageNo qu) 1)"

definition list_pageSize :: "query \<Rightarrow> int" where
  "list_pageSize qu = max 1 (min 100 (number_or (q_pageSize qu) 25))"

text \<open>\<open>safeSortBy\<close> and \<open>safeSortMethod\<close>.\<close>

definition list_sort :: "query \<Rightarrow> string \<times> string" where
  "list_sort qu =
     (let sortBy = str_or (q_sortBy qu) ''firstName'';
          sortMethod = toUpperCase (str_or (q_sortMethod qu) ''asc'');
          allowedSort = [''firstName'', ''lastName'', ''dateOfBirth'', ''admissionDate'']
      in (if sortBy \<in> set allowedSort then sortBy else ''firstName'',
          if sortMethod \<in> set [''ASC'', ''DESC''] then sortMethod else ''ASC''))"

text \<open>The WHERE clause and its parameters, shared by the count and the page scan.\<close>

definition list_where :: "query \<Rightarrow> row \<Rightarrow> bool" where
  "list_where qu r =
     ((query_text qu \<noteq> [] \<longrightarrow> name_like (''%'' @ toLowerCase (query_text qu) @ ''%'') r) \<and>
      (case q_isPinned qu of
         None \<Rightarrow> True
       | Some s \<Rightarrow> sql_eq (r ''isPinned'') (SInt (if toLowerCase s = ''true'' then 1 else 0))))"

definition listPatients :: "query \<Rightarrow> table \<Rightarrow> response" where
  "listPatients qu db =
     (let pageNo = list_pageNo qu;
          pageSize = list_pageSize qu;
          offset = (pageNo - 1) * pageSize;
          totalRecords = count_rows (list_where qu) db;
          pagesCount = math_ceil_div totalRecords pageSize;
          rows = scan (list_where qu) (fst (list_sort qu)) (snd (list_sort qu)) pageSize offset db
      in \<lparr>res_status = 200, res_location = None,
          res_body = JObj [(''data'', JArr (map (\<lambda>r. rowToPatient (Some r)) rows)),
                           (''totalRecords'', JNum (int totalRecords)),
                           (''pageNo'', JNum pageNo),
                           (''curentPageSize'', JNum pageSize),
                           (''pagesCount'', JNum pagesCount)]\<rparr>)"

subsection \<open>\<^verbatim>\<open>GET /api/v1/patients/search\<close> (strict parameters)\<close>

definition falsy_str :: "string option \<Rightarrow> bool" where
  "falsy_str s = (case s of None \<Rightarrow> True | Some x \<Rightarrow> x = [])"

definition search_errors :: "query \<Rightarrow> string list" where
  "search_errors qu =
     (if falsy_str (q_soldTo qu) then [''Required parameter 'soldTo' is missing'']
      else if trim (the (q_soldTo qu)) = [] then [''soldTo is required and cannot be empty'']
      else [])
     @ (case q_pageNo qu of
          QAbsent \<Rightarrow> []
        | QNaN \<Rightarrow> [''Invalid query parameter: pageNo must be greater than or equal to 1'']
        | QInt n \<Rightarrow> if n < 1
                     then [''Invalid query parameter: pageNo must be greater than or equal to 1'']
                     else [])
     @ (case q_pageSize qu of
          QAbsent \<Rightarrow> []
        | QNaN \<Rightarrow> [''Invalid query parameter: pageSize must be between 1 and 100'']
        | QInt n \<Rightarrow> if n < 1 \<or> n > 100
                     then [''Invalid query parameter: pageSize must be between 1 and 100'']
                     else [])
     @ (if \<not> falsy_str (q_sortBy qu) \<and>
           the (q_sortBy qu) \<notin> set [''LAST_NAME'', ''FIRST_NAME'', ''TEAM'', ''ADDRESS'', ''PATIENT_ID'']
        then [''Invalid sortBy value. Must be one of: LAST_NAME, FIRST_NAME, TEAM, ADDRESS, PATIENT_ID'']
        else [])
     @ (if \<not> falsy_str (q_sortMethod qu) \<and> the (q_sortMethod qu) \<notin> set [''ASC'', ''DESC'']
        then [''Invalid sortMethod value. Must be one of: ASC, DESC'']
        else [])"

text \<open>\<open>dbSort\<close>, as column and direction.\<close>

definition search_sort :: "query \<Rightarrow> string \<times> string" where
  "search_sort qu =
     (if falsy_str (q_sortBy qu) then (''lastName'', ''ASC'')
      else
        let dir = (if q_sortMethod qu = Some ''DESC'' then ''DESC'' else ''ASC'');
            sortBy = the (q_sortBy qu)
        in if sortBy = ''LAST_NAME'' then (''lastName'', dir)
           else if sortBy = ''FIRST_NAME'' then (''firstName'', dir)
           else if sortBy = ''PATIENT_ID'' then (''id'', dir)
           else if sortBy = ''TEAM'' then (''team'', dir)
           else if sortBy = ''ADDRESS'' then (''address'', dir)
           else (''lastName'', ''ASC''))"

definition search_where :: "query \<Rightarrow> row \<Rightarrow> bool" where
  "search_where qu r =
     (query_text qu \<noteq> [] \<longrightarrow> name_like (''%'' @ toLowerCase (query_text qu) @ ''%'') r)"

definition search_pageNo :: "query \<Rightarrow> int" where
  "search_pageNo qu = max 1 (number_or (q_pageNo qu) 1)"

definition search_pageSize :: "query \<Rightarrow> int" where
  "search_pageSize qu = max 1 (min 100 (number_or (q_pageSize qu) 25))"

definition searchPatients :: "query \<Rightarrow> table \<Rightarrow> response" where
  "searchPatients qu db =
     (if falsy_str (h_authorization qu)
      then handleError 401 ''Unauthorized'' JNull
             (JStr ''Full authentication is required to access this resource. Missing or invalid Authorization header.'')
      else if falsy_str (h_ping_authorization qu)
      then handleError 401 ''Unauthorized'' JNull (JStr ''Missing required Ping-Authorization header.'')
      else
        let errors = search_errors qu in
        if errors \<noteq> []
        then handleError 400 ''Bad Request'' JNull
               (JStr (if length errors = 1 then errors ! 0 else join ''; '' errors))
        else
          let pNo = search_pageNo qu;
              pSize = search_pageSize qu;
              offset = (pNo - 1) * pSize;
              totalRecords = count_rows (search_where qu) db;
              pagesCount = math_ceil_div totalRecords pSize;
              rows = scan (search_where qu) (fst (search_sort qu)) (snd (search_sort qu)) pSize offset db
          in \<lparr>res_status = 200, res_location = None,
              res_body = JObj [(''patients'', JArr (map (\<lambda>r. rowToPatientSearch (Some r)) rows)),
                               (''totalRecords'', JNum (int totalRecords)),
                               (''pageNo'', JNum pNo),
                               (''pagesCount'', JNum pagesCount)]\<rparr>)"

section \<open>The \<^verbatim>\<open>/api/patients\<close> handlers (keyed by patientKey)\<close>

text \<open>
  The table of this generation has the columns patientKey (the primary key), patientId,
  shipToId, firstName, lastName, dateOfBirth, teamName, primaryPayer and metadata.
\<close>

definition rowToPatient_api :: "row option \<Rightarrow> jsval" where
  "rowToPatient_api r =
     (case r of None \<Rightarrow> JNull
      | Some row \<Rightarrow> JObj
          [(''patientKey'', js_of_sql (row ''patientKey'')),
           (''patientId'', js_of_sql (row ''patientId'')),
           (''firstName'', js_of_sql (row ''firstName'')),
           (''lastName'', js_of_sql (row ''lastName'')),
           (''dateOfBirth'', js_of_sql (row ''dateOfBirth'')),
           (''teamName'', js_of_sql (row ''teamName'')),
           (''primaryPayer'', safeParse (row ''primaryPayer''))])"

definition has_key :: "string \<Rightarrow> row \<Rightarrow> bool" where
  "has_key k r = sql_eq (r ''patientKey'') (SText k)"

text \<open>
  The read by key: the handler registered for \<^verbatim>\<open>GET /api/patients/:id\<close>, where the id
  is the patientKey. (The definitions of this theory are the handlers; the order in which
  Express tries the routes of one path pattern is not part of them.)
\<close>

definition getPatient_api :: "string \<Rightarrow> table \<Rightarrow> response" where
  "getPatient_api k db =
     (case find (has_key k) db of
        None \<Rightarrow> handleError 404 ''Patient not found'' JNull JNull
      | Some row \<Rightarrow> \<lparr>res_status = 200, res_location = None, res_body = rowToPatient_api (Some row)\<rparr>)"

subsection \<open>\<^verbatim>\<open>GET /api/patients/:shipToId\<close> (strict sortBy)\<close>

definition like_col :: "string \<Rightarrow> string option \<Rightarrow> bool" where
  "like_col pat t = (case t of None \<Rightarrow> False | Some x \<Rightarrow> like pat x)"

definition shipTo_where :: "query \<Rightarrow> row \<Rightarrow> bool" where
  "shipTo_where qu r =
     (query_text qu \<noteq> [] \<longrightarrow>
        (let likeQ = ''%'' @ toLowerCase (query_text qu) @ ''%'' in
         like_col likeQ (map_option toLowerCase (sql_text (r ''firstName''))) \<or>
         like_col likeQ (map_option toLowerCase (sql_text (r ''lastName''))) \<or>
         like_col likeQ (sql_text (r ''patientId'')) \<or>
         like_col likeQ (map_option toLowerCase (sql_text (r ''teamName'')))))"

text \<open>
  The sort of the strict endpoint: a \<open>sortBy\<close> outside \<open>ALLOWED_SORT_FIELDS\<close> ends the
  request with a 400; otherwise \<open>dbSort\<close> and \<open>dbDir\<close>.
\<close>

definition shipTo_sort :: "query \<Rightarrow> response + string \<times> string" where
  "shipTo_sort qu =
     (let sortBy = str_or (q_sortBy qu) ''firstName'';
          sortDir = toLowerCase (str_or (q_sortDir qu) ''asc'')
      in if sortBy \<notin> set [''firstName'', ''lastName'', ''patientId'', ''team'']
         then Inl (handleError 400
                ''Invalid sortBy value. must be one of: firstName, lastName, patientId, team''
                (JStr ''BAD_REQUEST'')
                (JArr [JObj [(''field'', JStr ''sortBy''),
                             (''issue'', JStr ''must be one of: firstName, lastName, patientId, team'')]]))
         else Inr (if sortBy = ''team'' then ''teamName''
                   else if sortBy = ''patientId'' then ''patientId''
                   else if sortBy = ''lastName'' then ''lastName''
                   else ''firstName'',
                   if sortDir = ''desc'' then ''DESC'' else ''ASC''))"

definition shipTo_pageSize :: "query \<Rightarrow> int" where
  "shipTo_pageSize qu = max 1 (min 25 (number_or (q_pageSize qu) 25))"

definition searchByShipTo :: "string \<Rightarrow> query \<Rightarrow> table \<Rightarrow> response" where
  "searchByShipTo shipToId qu db =
     (if shipToId = [] then handleError 400 ''shipToId is required'' JNull JNull
      else
        let pageNo = max 1 (number_or (q_pageNo qu) 1);
            pageSize = shipTo_pageSize qu
        in (case shipTo_sort qu of
              Inl err \<Rightarrow> err
            | Inr (dbSort, dbDir) \<Rightarrow>
                let totalRecords = count_rows (shipTo_where qu) db;
                    totalPages = math_ceil_div totalRecords pageSize;
                    offset = (pageNo - 1) * pageSize;
                    rows = scan (shipTo_where qu) dbSort dbDir pageSize offset db
                in \<lparr>res_status = 200, res_location = None,
                    res_body = JObj
                      [(''soldTo'', JStr (str_or (q_soldTo qu) ''1563073'')),
                       (''pagination'', JObj [(''pageNo'', JNum pageNo), (''pageSize'', JNum pageSize),
                                             (''totalRecords'', JNum (int totalRecords)),
                                             (''totalPages'', JNum totalPages)]),
                       (''patients'', JArr (map (\<lambda>r. rowToPatient_api (Some r)) rows))]\<rparr>))"

section \<open>Bulk delete\<close>

text \<open>
  Modelled from the spec: the handler of \<^verbatim>\<open>DELETE /api/patients/:shipToId?patientKeys=...\<close>
  is not among the repository's files; only its test (\<^verbatim>\<open>verify_delete.js\<close>) is, which
  expects status 200 and a body \<open>{results: [...]}\<close> with one entry per key. Following
  section 4.5 of the spec, the keys are deleted one after the other, each on its own, the
  ship-to id is accepted and not used, and the answer lists \<open>{key, status}\<close> per key with
  status SUCCESS when a row was deleted and NOT_FOUND when none had the key.
\<close>

fun delete_keys :: "string list \<Rightarrow> table \<Rightarrow> (string \<times> string) list \<times> table" where
  "delete_keys [] db = ([], db)"
| "delete_keys (k # ks) db =
     (let st = (if list_ex (has_key k) db then ''SUCCESS'' else ''NOT_FOUND'');
          (rs, db') = delete_keys ks (filter (\<lambda>r. \<not> has_key k r) db)
      in ((k, st) # rs, db'))"

definition result_entry :: "string \<times> string \<Rightarrow> jsval" where
  "result_entry kv = JObj [(''key'', JStr (fst kv)), (''status'', JStr (snd kv))]"

definition deletePatients :: "string \<Rightarrow> string list \<Rightarrow> table \<Rightarrow> response \<times> table" where
  "deletePatients shipToId keys db =
     (let (rs, db') = delete_keys keys db
      in (\<lparr>res_status = 200, res_location = None,
           res_body = JObj [(''results'', JArr (map result_entry rs))]\<rparr>, db'))"

section \<open>Example data\<close>

text \<open>
  A request environment (clock, caller) and one stored patient, created earlier by
  another caller; the witnesses and counterexamples below run the handlers on them.
\<close>

definition example_env :: env where
  "example_env =
     \<lparr>env_now = ''2024-06-30T12:00:00.000Z'', env_user = Some ''bob'', env_uuid = ''p2'',
      env_host = None, env_proto = ''http''\<rparr>"

definition example_row :: row where
  "example_row =
     (\<lambda>c. SNull)
       (''id'' := SText ''p1'', ''firstName'' := SText ''Ann'', ''lastName'' := SText ''Lee'',
        ''dateOfBirth'' := SText ''1990-01-01'', ''gender'' := SText ''FEMALE'',
        ''insurance'' := SJson (JObj [(''providerName'', JStr ''MockIns''),
                                      (''policyNumber'', JStr ''P123'')]),
        ''status'' := SText ''ACTIVE'', ''isPinned'' := SInt 1,
        ''metadata'' := SJson (JObj [(''createdAt'', JStr ''2024-01-01T00:00:00.000Z''),
                                     (''createdBy'', JStr ''alice''),
                                     (''updatedAt'', JStr ''2024-01-01T00:00:00.000Z''),
                                     (''updatedBy'', JStr ''alice'')]))"

text \<open>A full-update body that carries no metadata.\<close>

definition example_put_body :: jsval where
  "example_put_body =
     JObj [(''firstName'', JStr ''Ann''), (''lastName'', JStr ''Lee-Smith''),
           (''insurance'', JObj [(''providerName'', JStr ''MockIns'')])]"

text \<open>A first page of 25 with the headers and the soldTo that the search requires.\<close>

definition example_query :: query where
  "example_query =
     \<lparr>q_q = None, q_pageNo = QInt 1, q_pageSize = QInt 25, q_sortBy = None, q_sortMethod = None,
      q_sortDir = None, q_isPinned = None, q_soldTo = Some ''1563073'',
      h_authorization = Some ''Bearer test'', h_ping_authorization = Some ''ping''\<rparr>"

text \<open>
  What the page-count claim asks of a response \<open>r\<close> to a list or search request over
  the table \<open>db\<close>, with \<open>wh\<close> the WHERE predicate, \<open>pageSize\<close> the page size in force
  and \<open>items\<close> the key of the item list.
\<close>

definition page_consistent ::
  "(row \<Rightarrow> bool) \<Rightarrow> int \<Rightarrow> (row option \<Rightarrow> jsval) \<Rightarrow> string \<Rightarrow> table \<Rightarrow> response \<Rightarrow> bool" where
  "page_consistent wh pageSize proj items db r =
     (let n = count_rows wh db; pc = \<lceil>real n / real_of_int pageSize\<rceil> in
      res_status r = 200 \<and>
      get (res_body r) ''totalRecords'' = JNum (int n) \<and>
      get (res_body r) ''pagesCount'' = JNum pc \<and>
      int n \<le> pc * pageSize \<and> (pc - 1) * pageSize < int n \<and>
      (\<exists>rows. get (res_body r) items = JArr (map (\<lambda>x. proj (Some x)) rows) \<and>
              set rows \<subseteq> {x \<in> set db. wh x} \<and> length rows \<le> n \<and>
              int (length rows) \<le> pageSize) \<and>
      (db = [] \<longrightarrow> get (res_body r) ''totalRecords'' = JNum 0 \<and>
                  get (res_body r) ''pagesCount'' = JNum 0 \<and>
                  get (res_body r) items = JArr []))"

text \<open>The stored patient with a last order.\<close>

definition example_order_row :: row where
  "example_order_row =
     example_row(''lastOrder'' := SJson (JObj [(''id'', JStr ''ORD-1''), (''date'', JStr ''2024-03-09''),
                                               (''status'', JStr ''SHIPPED'')]))"

text \<open>A row of the \<^verbatim>\<open>/api/patients\<close> table, as the delete test creates it.\<close>

definition example_api_row :: "string \<Rightarrow> string \<Rightarrow> row" where
  "example_api_row k n =
     (\<lambda>c. SNull)(''patientKey'' := SText k, ''patientId'' := SText n, ''firstName'' := SText ''Delete'',
                  ''lastName'' := SText ''Test1'', ''teamName'' := SText ''Test'')"

text \<open>The field list that one PATCH step contributes (used in the proofs below).\<close>

definition step_fields :: "jsval \<Rightarrow> patch_step \<Rightarrow> (string \<times> sqlval) list" where
  "step_fields b s =
     (if get b (step_column s) = JUndefined then []
      else [(step_column s, step_value s (get b (step_column s)))])"

section \<open>Properties\<close>

subsection \<open>Auxiliary facts\<close>

lemma get_body_or: "get (js_or b (JObj [])) c = get b c"
  by (cases b) (auto simp: js_or_def)

lemma handleError_status [simp]: "res_status (handleError st m c d) = st"
  by (simp add: handleError_def)

lemma assign_distinct:
  "distinct (map fst cvs) \<Longrightarrow>
   assign cvs r c = (case map_of cvs c of None \<Rightarrow> r c | Some v \<Rightarrow> column_affinity c v)"
proof (induction cvs arbitrary: r)
  case Nil
  then show ?case by (simp add: assign_def)
next
  case (Cons kv cvs)
  obtain k v where kv: "kv = (k, v)" by (cases kv)
  from Cons.prems kv have d: "distinct (map fst cvs)" and k: "k \<notin> fst ` set cvs" by auto
  have "assign (kv # cvs) r c = assign cvs (r(k := column_affinity k v)) c"
    by (simp add: assign_def kv)
  also have "\<dots> = (case map_of cvs c of None \<Rightarrow> (r(k := column_affinity k v)) c
                     | Some v' \<Rightarrow> column_affinity c v')"
    by (rule Cons.IH [OF d])
  also have "\<dots> = (case map_of (kv # cvs) c of None \<Rightarrow> r c | Some v' \<Rightarrow> column_affinity c v')"
  proof (cases "c = k")
    case True
    with k have "map_of cvs c = None" by (simp add: map_of_eq_None_iff)
    with True show ?thesis by (simp add: kv)
  next
    case False
    then show ?thesis by (simp add: kv split: option.split)
  qed
  finally show ?case .
qed

lemma map_of_step_fields_single:
  "map_of (step_fields b t) c =
     (if c = step_column t \<and> get b c \<noteq> JUndefined then Some (step_value t (get b c)) else None)"
  by (simp add: step_fields_def)

lemma collect_fields_step:
  "collect_fields b (s # ss) fs = Inr out \<Longrightarrow> collect_fields b ss (fs @ step_fields b s) = Inr out"
  by (auto simp: Let_def step_fields_def split: if_splits option.splits)

lemma collect_fields_Inr:
  "collect_fields b ss fs = Inr out \<Longrightarrow> out = fs @ concat (map (step_fields b) ss)"
proof (induction ss arbitrary: fs)
  case Nil
  then show ?case by simp
next
  case (Cons s ss)
  from Cons.IH [OF collect_fields_step [OF Cons.prems]] show ?case by simp
qed

lemma map_of_step_fields_notin:
  "c \<notin> step_column ` set ss \<Longrightarrow> map_of (concat (map (step_fields b) ss)) c = None"
  by (induction ss) (auto simp: step_fields_def map_of_eq_None_iff)

lemma fst_step_fields: "fst ` set (concat (map (step_fields b) ss)) \<subseteq> step_column ` set ss"
  by (induction ss) (auto simp: step_fields_def split: if_splits)

lemma distinct_step_fields:
  "distinct (map step_column ss) \<Longrightarrow> distinct (map fst (concat (map (step_fields b) ss)))"
proof (induction ss)
  case Nil
  then show ?case by simp
next
  case (Cons s ss)
  then have "step_column s \<notin> fst ` set (concat (map (step_fields b) ss))"
    using fst_step_fields [of b ss] by auto
  with Cons show ?case by (auto simp: step_fields_def)
qed

lemma map_of_step_fields_in:
  "distinct (map step_column ss) \<Longrightarrow> s \<in> set ss \<Longrightarrow>
   map_of (concat (map (step_fields b) ss)) (step_column s) =
     (if get b (step_column s) = JUndefined then None
      else Some (step_value s (get b (step_column s))))"
proof (induction ss)
  case Nil
  then show ?case by simp
next
  case (Cons t ss)
  show ?case
  proof (cases "s = t")
    case True
    with Cons.prems have "step_column s \<notin> step_column ` set ss" by auto
    then have "map_of (concat (map (step_fields b) ss)) (step_column s) = None"
      by (rule map_of_step_fields_notin)
    with True show ?thesis by (simp add: map_add_def map_of_step_fields_single)
  next
    case False
    with Cons.prems have s: "s \<in> set ss" and d: "distinct (map step_column ss)"
      and ne: "step_column t \<noteq> step_column s" by auto
    from ne have "map_of (step_fields b t) (step_column s) = None"
      by (simp add: map_of_step_fields_single)
    then show ?thesis
      using Cons.IH [OF d s] by (simp add: map_add_def)
  qed
qed

lemma collect_fields_error_400:
  "collect_fields b ss fs = Inl r \<Longrightarrow> res_status r = 400"
  by (induction ss arbitrary: fs)
     (auto simp: Let_def split: if_splits option.splits)

lemma collect_fields_absent:
  "\<forall>s \<in> set ss. get b (step_column s) = JUndefined \<Longrightarrow> collect_fields b ss fs = Inr fs"
  by (induction ss arbitrary: fs) (auto simp: Let_def)

lemma collect_fields_rejects:
  "s \<in> set ss \<Longrightarrow> get b (step_column s) \<noteq> JUndefined \<Longrightarrow>
   step_rejects s (get b (step_column s)) = Some msg \<Longrightarrow>
   \<exists>r. collect_fields b ss fs = Inl r"
  by (induction ss arbitrary: fs) (auto simp: Let_def split: option.splits)

lemma example_row_columns:
  "example_row ''id'' = SText ''p1''"
  "example_row ''firstName'' = SText ''Ann''"
  "example_row ''lastName'' = SText ''Lee''"
  "example_row ''dateOfBirth'' = SText ''1990-01-01''"
  "example_row ''gender'' = SText ''FEMALE''"
  "example_row ''isPinned'' = SInt 1"
  "example_row ''insurance'' =
     SJson (JObj [(''providerName'', JStr ''MockIns''), (''policyNumber'', JStr ''P123'')])"
  "example_row ''metadata'' =
     SJson (JObj [(''createdAt'', JStr ''2024-01-01T00:00:00.000Z''), (''createdBy'', JStr ''alice''),
                  (''updatedAt'', JStr ''2024-01-01T00:00:00.000Z''), (''updatedBy'', JStr ''alice'')])"
  by (simp_all add: example_row_def)

lemma example_has_id: "has_id ''p1'' example_row"
  by (simp add: has_id_def example_row_columns)

lemma patch_columns:
  "map step_column patch_steps =
     [''firstName'', ''lastName'', ''dateOfBirth'', ''gender'', ''phone'', ''email'',
      ''address'', ''roomNumber'', ''bedNumber'', ''admissionDate'', ''dischargeDate'',
      ''primaryPhysician'', ''payer'', ''insurance'', ''diagnosisCodes'', ''status'',
      ''isPinned'', ''team'', ''agency'', ''lastOrder'']"
  by (simp add: patch_steps_def)

lemma patch_columns_distinct: "distinct (map step_column patch_steps)"
  unfolding patch_columns by simp

lemma metadata_not_patch_column: "''metadata'' \<notin> step_column ` set patch_steps"
proof -
  have "''metadata'' \<notin> set (map step_column patch_steps)"
    unfolding patch_columns by simp
  then show ?thesis by simp
qed

lemma patchPatient_200:
  assumes "patchPatient e i body db = (r, db')" and "res_status r = 200"
  obtains fs mRow where
    "collect_fields (js_or body (JObj [])) patch_steps [] = Inr fs"
    "select_by_id db i = Some mRow"
    "db' = map (\<lambda>row. if has_id i row
                 then assign (fs @ [(''metadata'', SJson (merged_meta e (existing_meta mRow)))]) row
                 else row) db"
proof -
  let ?b = "js_or body (JObj [])"
  from assms have st: "res_status (fst (patchPatient e i body db)) = 200"
    and out: "snd (patchPatient e i body db) = db'" by simp_all
  from st have i: "i \<noteq> []"
    by (auto simp: patchPatient_def)
  show thesis
  proof (cases "collect_fields ?b patch_steps []")
    case (Inl err)
    with i st collect_fields_error_400 [OF Inl] show thesis
      by (simp add: patchPatient_def)
  next
    case (Inr fs)
    show thesis
    proof (cases "select_by_id db i")
      case None
      with i Inr st show thesis
        by (simp add: patchPatient_def split: if_splits)
    next
      case (Some mRow)
      let ?cvs = "fs @ [(''metadata'', SJson (merged_meta e (existing_meta mRow)))]"
      show thesis
      proof (cases "sql_update db i ?cvs")
        case (Inl msg)
        with i Inr Some st show thesis
          by (simp add: patchPatient_def split: if_splits)
      next
        case upd: (Inr res)
        then have "res = (length (filter (has_id i) db),
                          map (\<lambda>row. if has_id i row then assign ?cvs row else row) db)"
          by (simp add: sql_update_def split: if_splits)
        with i Inr Some upd st out
        have "db' = map (\<lambda>row. if has_id i row then assign ?cvs row else row) db"
          by (simp add: patchPatient_def split: if_splits)
        with Inr Some that show thesis by blast
      qed
    qed
  qed
qed

lemma put_params_distinct: "distinct (map fst (put_params e b))"
  by (simp add: put_params_def)

lemma assign_put_params:
  "assign (put_params e b) row ''firstName'' = text_affinity (bind (get b ''firstName''))"
  "assign (put_params e b) row ''lastName'' = text_affinity (bind (get b ''lastName''))"
  "assign (put_params e b) row ''metadata'' = SJson (put_metadata e b)"
  by (simp_all add: assign_distinct [OF put_params_distinct])
     (simp_all add: put_params_def column_affinity_def)

lemma example_put:
  "replacePatient example_env ''p1'' example_put_body [example_row] =
     (\<lparr>res_status = 200, res_location = None,
       res_body = rowToPatient (Some (assign (put_params example_env example_put_body) example_row))\<rparr>,
      [assign (put_params example_env example_put_body) example_row])"
proof -
  have b: "js_or example_put_body (JObj []) = example_put_body"
    by (simp add: js_or_def example_put_body_def)
  have v: "required_errors example_put_body '' is required for full update'' = []"
          "format_errors example_put_body = []"
    by (simp_all add: required_errors_def format_errors_def example_put_body_def)
  have nn: "not_null_ok (assign (put_params example_env example_put_body) example_row)"
    by (simp add: not_null_ok_def assign_put_params) (simp add: example_put_body_def)
  have idc: "assign (put_params example_env example_put_body) example_row ''id'' = SText ''p1''"
    by (simp add: assign_distinct [OF put_params_distinct])
       (simp add: put_params_def example_row_columns)
  show ?thesis
    by (simp add: replacePatient_def b v sql_update_def nn select_by_id_def
          has_id_def idc example_row_columns)
qed

lemma insert_params_distinct: "distinct (map fst (insert_params p))"
  by (simp add: insert_params_def)

lemma assign_insert_params:
  "assign (insert_params p) row ''id'' = text_affinity (bind (get p ''id''))"
  "assign (insert_params p) row ''firstName'' = text_affinity (bind (get p ''firstName''))"
  "assign (insert_params p) row ''lastName'' = text_affinity (bind (get p ''lastName''))"
  "assign (insert_params p) row ''dateOfBirth'' = text_affinity (bind (get p ''dateOfBirth''))"
  "assign (insert_params p) row ''insurance'' = json_param (get p ''insurance'')"
  "assign (insert_params p) row ''payer'' = text_affinity (bind (get p ''payer''))"
  by (simp_all add: assign_distinct [OF insert_params_distinct])
     (simp_all add: insert_params_def column_affinity_def json_param_def)

lemma patient_later_get:
  "get (patient_later e b) ''id'' = patient_id_later e b"
  "get (patient_later e b) ''firstName'' = get b ''firstName''"
  "get (patient_later e b) ''lastName'' = get b ''lastName''"
  "get (patient_later e b) ''insurance'' = insuranceObj b"
  by (simp_all add: patient_later_def Let_def)

lemma bind_truthy: "truthy v \<Longrightarrow> text_affinity (bind v) \<noteq> SNull"
  by (cases v) auto

lemma listItem_primaryPayer:
  assumes "row ''insurance'' = SJson ins" and "truthy ins" and "typeof_object ins"
  shows "get (rowToPatientListItem (Some row)) ''primaryPayer'' =
     JObj [(''payerId'', js_or (get ins ''payerId'') (JStr ''payer-unknown'')),
           (''payerType'', js_or (get ins ''payerType'') (JStr ''Insurance'')),
           (''displayName'',
              js_or (js_or (get ins ''displayName'') (get ins ''providerName'')) (JStr ''Unknown''))]"
  using assms
  by (simp add: rowToPatientListItem_def rowToPatient_safe_def Let_def safeParse_def)

lemma js_or_body: "get body k \<noteq> JUndefined \<Longrightarrow> js_or body (JObj []) = body"
  by (cases body) (auto simp: js_or_def)

lemma truthy_defined: "truthy v \<Longrightarrow> v \<noteq> JUndefined"
  by auto

lemma createPatient_later_inserts:
  assumes "errors_later body = []" and "truthy (get body ''firstName'')"
    and "truthy (get body ''lastName'')"
    and "\<not> list_ex (\<lambda>r. sql_eq (r ''id'') (text_affinity (bind (patient_id_later e body)))) db"
  shows "createPatient_later e body db =
           (Thrown ''ReferenceError: rowToPatientSearch is not defined'',
            db @ [assign (insert_params (patient_later e body)) (\<lambda>c. SNull)])"
proof -
  from assms(2) have b: "js_or body (JObj []) = body"
    by (intro js_or_body [of _ "''firstName''"] truthy_defined)
  let ?r = "assign (insert_params (patient_later e body)) (\<lambda>c. SNull)"
  have nn: "not_null_ok ?r"
    using assms(2,3) by (simp add: not_null_ok_def assign_insert_params patient_later_get bind_truthy)
  have idc: "?r ''id'' = text_affinity (bind (patient_id_later e body))"
    by (simp add: assign_insert_params patient_later_get)
  have ins: "sql_insert db (insert_params (patient_later e body)) = Inr (db @ [?r])"
    using nn assms(4) by (simp add: sql_insert_def Let_def idc)
  show ?thesis
    using assms(1,4) by (simp add: createPatient_later_def b Let_def patient_later_get ins)
qed

lemma new_patient_get:
  "get (new_patient e b) ''firstName'' = get b ''firstName''"
  "get (new_patient e b) ''lastName'' = get b ''lastName''"
  "get (new_patient e b) ''dateOfBirth'' = js_or (get b ''dateOfBirth'') JNull"
  by (simp_all add: new_patient_def Let_def)

lemma createPatient_409_only_name_dob:
  "res_status (fst (createPatient e body db)) = 409 \<Longrightarrow>
   list_ex (same_name_dob (new_patient e (js_or body (JObj [])))) db"
  by (auto simp: createPatient_def Let_def split: if_splits sum.splits)

lemma createPatient_later_not_name_conflict:
  "fst (createPatient_later e body db) \<noteq>
     Sent (handleError 409 ''Patient already exists'' (JStr ''DUP_PATIENT'')
            (JArr [JStr (''Patient with name '' @ x)]))"
  by (auto simp: createPatient_later_def Let_def handleError_def split: if_splits sum.splits)

lemma set_insert_by: "set (insert_by le x xs) = insert x (set xs)"
  by (induction xs) auto

lemma length_insert_by: "length (insert_by le x xs) = Suc (length xs)"
  by (induction xs) auto

lemma set_sort_by: "set (sort_by le xs) = set xs"
  by (induction xs) (auto simp: sort_by_def set_insert_by)

lemma length_sort_by: "length (sort_by le xs) = length xs"
  by (induction xs) (auto simp: sort_by_def length_insert_by)

lemma set_scan: "set (scan wh c d k off db) \<subseteq> {r \<in> set db. wh r}"
proof -
  have "set (scan wh c d k off db) \<subseteq> set (order_by c d (filter wh db))"
    unfolding scan_def by (meson set_take_subset set_drop_subset subset_trans)
  then show ?thesis by (auto simp: order_by_def set_sort_by)
qed

lemma length_scan: "length (scan wh c d k off db) \<le> count_rows wh db"
  by (simp add: scan_def count_rows_def order_by_def length_sort_by)

lemma length_scan_limit: "0 \<le> k \<Longrightarrow> int (length (scan wh c d k off db)) \<le> k"
  by (simp add: scan_def)

lemma scan_empty: "scan wh c d k off [] = []"
  by (simp add: scan_def order_by_def sort_by_def)

lemma math_ceil_div_int: "math_ceil_div n ps = - (- int n div ps)"
proof -
  have "real n / real_of_int ps = of_int (int n) / of_int ps" by simp
  then show ?thesis
    unfolding math_ceil_div_def by (simp only: ceiling_divide_eq_div)
qed

lemma math_ceil_div_zero: "math_ceil_div 0 ps = 0"
  by (simp add: math_ceil_div_def)

lemma list_pageSize_range: "1 \<le> list_pageSize qu \<and> list_pageSize qu \<le> 100"
  by (simp add: list_pageSize_def)

lemma search_pageSize_range: "1 \<le> search_pageSize qu \<and> search_pageSize qu \<le> 100"
  by (simp add: search_pageSize_def)

lemma math_ceil_div_bounds:
  assumes "1 \<le> ps"
  shows "int n \<le> math_ceil_div n ps * ps"
    and "(math_ceil_div n ps - 1) * ps < int n"
    and "math_ceil_div n ps = (int n + ps - 1) div ps"
proof -
  define c where "c = math_ceil_div n ps"
  define m where "m = (- int n) mod ps"
  from assms have m: "0 \<le> m" "m < ps"
    by (simp_all add: m_def)
  have "- int n = ps * ((- int n) div ps) + m"
    by (simp add: m_def)
  then have n_eq: "int n = c * ps - m"
    by (simp add: c_def math_ceil_div_int algebra_simps)
  from n_eq m show "int n \<le> math_ceil_div n ps * ps"
    by (simp add: c_def [symmetric])
  from n_eq m show "(math_ceil_div n ps - 1) * ps < int n"
    by (simp add: c_def [symmetric] algebra_simps)
  have "int n + ps - 1 = (ps - 1 - m) + c * ps"
    by (simp add: n_eq)
  then have "(int n + ps - 1) div ps = (ps - 1 - m) div ps + c"
    using assms by (simp only: div_mult_self1)
  also have "(ps - 1 - m) div ps = 0"
    using m by (simp add: div_pos_pos_trivial)
  finally show "math_ceil_div n ps = (int n + ps - 1) div ps"
    by (simp add: c_def)
qed

lemma page_consistentI:
  assumes "1 \<le> ps"
    and "res_status r = 200"
    and "get (res_body r) ''totalRecords'' = JNum (int (count_rows wh db))"
    and "get (res_body r) ''pagesCount'' = JNum (math_ceil_div (count_rows wh db) ps)"
    and "get (res_body r) items = JArr (map (\<lambda>x. proj (Some x)) (scan wh c d ps off db))"
  shows "page_consistent wh ps proj items db r"
proof -
  have rows: "set (scan wh c d ps off db) \<subseteq> {x \<in> set db. wh x}"
      "length (scan wh c d ps off db) \<le> count_rows wh db"
      "int (length (scan wh c d ps off db)) \<le> ps"
    using assms(1) by (simp_all add: set_scan length_scan length_scan_limit)
  have empty: "db = [] \<Longrightarrow> count_rows wh db = 0 \<and> scan wh c d ps off db = []"
    by (simp add: count_rows_def scan_empty)
  show ?thesis
    unfolding page_consistent_def Let_def
    using assms(2-5) rows math_ceil_div_bounds(1,2) [OF assms(1), of "count_rows wh db"] empty
    by (auto simp: math_ceil_div_def)
qed

lemma example_search_ok: "res_status (searchPatients example_query [example_row]) = 200"
  by (simp add: searchPatients_def example_query_def falsy_str_def search_errors_def trim_def
        is_space_def Let_def)

lemma list_sort_unregistered:
  assumes "q_sortBy qu = Some s"
    and "s \<notin> set [''firstName'', ''lastName'', ''dateOfBirth'', ''admissionDate'']"
  shows "list_sort qu = list_sort (qu\<lparr>q_sortBy := None\<rparr>)"
    and "fst (list_sort qu) = ''firstName''"
  using assms by (auto simp: list_sort_def str_or_def Let_def)

lemma listPatients_unregistered:
  assumes "q_sortBy qu = Some s"
    and "s \<notin> set [''firstName'', ''lastName'', ''dateOfBirth'', ''admissionDate'']"
  shows "listPatients qu db = listPatients (qu\<lparr>q_sortBy := None\<rparr>) db"
proof -
  have "list_where (qu\<lparr>q_sortBy := None\<rparr>) = list_where qu"
    by (rule ext) (simp add: list_where_def query_text_def)
  moreover have "list_pageNo (qu\<lparr>q_sortBy := None\<rparr>) = list_pageNo qu"
    "list_pageSize (qu\<lparr>q_sortBy := None\<rparr>) = list_pageSize qu"
    by (simp_all add: list_pageNo_def list_pageSize_def)
  ultimately show ?thesis
    unfolding listPatients_def list_sort_unregistered(1) [OF assms] by simp
qed

lemma list_sort_range:
  "fst (list_sort qu) \<in> {''firstName'', ''lastName'', ''dateOfBirth'', ''admissionDate''}"
  "snd (list_sort qu) \<in> {''ASC'', ''DESC''}"
  by (auto simp: list_sort_def Let_def)

lemma shipTo_sort_range:
  "shipTo_sort qu = Inr (c, d) \<Longrightarrow>
     c \<in> {''firstName'', ''lastName'', ''patientId'', ''teamName''} \<and> d \<in> {''ASC'', ''DESC''}"
  by (auto simp: shipTo_sort_def Let_def split: if_splits)

lemma searchByShipTo_unregistered:
  assumes "q_sortBy qu = Some s" and "s \<noteq> []"
    and "s \<notin> set [''firstName'', ''lastName'', ''patientId'', ''team'']"
    and "shipToId \<noteq> []"
  shows "searchByShipTo shipToId qu db =
     handleError 400 ''Invalid sortBy value. must be one of: firstName, lastName, patientId, team''
       (JStr ''BAD_REQUEST'')
       (JArr [JObj [(''field'', JStr ''sortBy''),
                    (''issue'', JStr ''must be one of: firstName, lastName, patientId, team'')]])"
proof -
  from assms(1-3) have "shipTo_sort qu =
     Inl (handleError 400 ''Invalid sortBy value. must be one of: firstName, lastName, patientId, team''
       (JStr ''BAD_REQUEST'')
       (JArr [JObj [(''field'', JStr ''sortBy''),
                    (''issue'', JStr ''must be one of: firstName, lastName, patientId, team'')]]))"
    by (simp add: shipTo_sort_def str_or_def Let_def)
  with assms(4) show ?thesis
    by (simp add: searchByShipTo_def Let_def)
qed

lemma searchPatients_unregistered:
  assumes "q_sortBy qu = Some s" and "s \<noteq> []"
    and "s \<notin> set [''LAST_NAME'', ''FIRST_NAME'', ''TEAM'', ''ADDRESS'', ''PATIENT_ID'']"
  shows "res_status (searchPatients qu db) \<in> {400, 401}"
proof -
  from assms have "search_errors qu \<noteq> []"
    by (simp add: search_errors_def falsy_str_def)
  then show ?thesis
    by (simp add: searchPatients_def Let_def)
qed

lemma search_sort_range:
  "fst (search_sort qu) \<in> {''lastName'', ''firstName'', ''id'', ''team'', ''address''}"
  "snd (search_sort qu) \<in> {''ASC'', ''DESC''}"
  by (auto simp: search_sort_def Let_def)

lemma split_on_no_sep: "c \<notin> set s \<Longrightarrow> split_on c s = [s]"
  by (induction s) auto

lemma split_on_append:
  "c \<notin> set a \<Longrightarrow> split_on c (a @ c # rest) = a # split_on c rest"
  by (induction a) (auto split: list.splits)

lemma split_on_ymd:
  assumes "c \<notin> set y" "c \<notin> set m" "c \<notin> set d"
  shows "split_on c (y @ [c] @ m @ [c] @ d) = [y, m, d]"
  using assms by (simp add: split_on_append split_on_no_sep)

lemma split_on_not_Nil: "split_on c s \<noteq> []"
  by (induction s) (auto split: list.splits)

lemma join_Cons_char: "join sep ((x # p) # ps) = x # join sep (p # ps)"
  by (cases ps) simp_all

lemma split_on_join: "join [c] (split_on c s) = s"
proof (induction s)
  case Nil
  then show ?case by simp
next
  case (Cons x xs)
  obtain p ps where ps: "split_on c xs = p # ps"
    using split_on_not_Nil [of c xs] by (cases "split_on c xs") auto
  with Cons show ?case by (auto simp: join_Cons_char)
qed

lemma split_on_parts: "p \<in> set (split_on c s) \<Longrightarrow> c \<notin> set p"
  by (induction s arbitrary: p) (auto split: if_splits list.splits)

lemma split_on_three:
  assumes "length (split_on c s) = 3"
  shows "\<exists>y m d. split_on c s = [y, m, d] \<and> s = y @ [c] @ m @ [c] @ d \<and>
           c \<notin> set y \<and> c \<notin> set m \<and> c \<notin> set d"
proof -
  from assms obtain y m d where ps: "split_on c s = [y, m, d]"
    by (auto simp: length_Suc_conv numeral_3_eq_3)
  from split_on_join [of c s] have "s = y @ [c] @ m @ [c] @ d"
    by (simp add: ps)
  moreover from split_on_parts [of _ c s] have "c \<notin> set y" "c \<notin> set m" "c \<notin> set d"
    by (simp_all add: ps)
  ultimately show ?thesis using ps by blast
qed

lemma map_of_set_prop:
  "map_of (set_prop k v kvs) k = (if map_of kvs k = None then None else Some v)"
  by (induction kvs) (auto simp: set_prop_def split: if_splits)

lemma get_set_prop:
  "map_of kvs k \<noteq> None \<Longrightarrow> get (JObj (set_prop k v kvs)) k = v"
  by (auto simp: map_of_set_prop)

lemma legacy_dob_ymd:
  assumes "CHR ''-'' \<notin> set y" "CHR ''-'' \<notin> set m" "CHR ''-'' \<notin> set d" "length y = 4"
  shows "legacy_dob (JStr (y @ ''-'' @ m @ ''-'' @ d)) = Inr (JStr (m @ ''/'' @ d @ ''/'' @ y))"
  using assms split_on_ymd [of "CHR ''-''" y m d]
  by (simp add: legacy_dob_def Let_def)

lemma legacy_dob_other:
  assumes "\<not> (\<exists>y m d. s = y @ ''-'' @ m @ ''-'' @ d \<and> length y = 4 \<and>
                CHR ''-'' \<notin> set y \<and> CHR ''-'' \<notin> set m \<and> CHR ''-'' \<notin> set d)"
  shows "legacy_dob (JStr s) = Inr (JStr s)"
proof (cases "length (split_on CHR ''-'' s) = 3 \<and> length (split_on CHR ''-'' s ! 0) = 4")
  case True
  with split_on_three [of "CHR ''-''" s] obtain y m d where
    "split_on CHR ''-'' s = [y, m, d]" "s = y @ ''-'' @ m @ ''-'' @ d"
    "CHR ''-'' \<notin> set y" "CHR ''-'' \<notin> set m" "CHR ''-'' \<notin> set d" by auto
  moreover with True have "length y = 4" by simp
  ultimately show ?thesis using assms by blast
next
  case False
  then show ?thesis by (auto simp: legacy_dob_def Let_def)
qed

lemma legacy_lastOrder_ymd:
  assumes "get (JObj kvs) ''date'' = JStr (y @ ''-'' @ m @ ''-'' @ d)"
    and "CHR ''-'' \<notin> set y" "CHR ''-'' \<notin> set m" "CHR ''-'' \<notin> set d"
  shows "\<exists>lo. legacy_lastOrder (JObj kvs) = Inr lo \<and>
           get lo ''date'' = JStr (m @ ''/'' @ d @ ''/'' @ y)"
proof -
  from assms(1) have k: "map_of kvs ''date'' \<noteq> None"
    by (auto split: option.splits)
  show ?thesis
    using assms split_on_ymd [of "CHR ''-''" y m d] get_set_prop [OF k]
    by (simp add: legacy_lastOrder_def Let_def part_def)
qed

lemma legacy_lastOrder_plain:
  assumes "get (JObj kvs) ''date'' = JStr s" and "CHR ''-'' \<notin> set s"
  shows "legacy_lastOrder (JObj kvs) = Inr (JObj kvs)"
  using assms by (simp add: legacy_lastOrder_def Let_def)

lemma legacy_lastOrder_string_date:
  assumes "get (JObj kvs) ''date'' = JStr s"
  shows "\<exists>lo. legacy_lastOrder (JObj kvs) = Inr lo"
  using assms by (simp add: legacy_lastOrder_def Let_def)

lemma legacy_dob_string: "\<exists>v. legacy_dob (JStr s) = Inr v"
  by (simp add: legacy_dob_def Let_def)

lemma legacy_pat_columns:
  "get (rowToPatient_safe (Some row)) ''dateOfBirth'' = js_of_sql (row ''dateOfBirth'')"
  "get (rowToPatient_safe (Some row)) ''lastOrder'' = safeParse (row ''lastOrder'')"
  by (simp_all add: rowToPatient_safe_def)

lemma rowToPatientLegacy_dates:
  assumes "row ''dateOfBirth'' = SText dob" and "row ''lastOrder'' = SJson (JObj kvs)"
    and "legacy_lastOrder (JObj kvs) = Inr lo" and "legacy_dob (JStr dob) = Inr fd"
  shows "\<exists>p. rowToPatientLegacy (Some row) = Inr p \<and> get p ''dob'' = fd \<and> get p ''lastOrder'' = lo"
  using assms
  by (simp add: rowToPatientLegacy_def legacy_pat_columns safeParse_def Let_def)

lemma rowToPatientSearch_dates:
  "get (rowToPatientSearch (Some row)) ''dob'' = js_of_sql (row ''dateOfBirth'')"
  "get (rowToPatientSearch (Some row)) ''lastOrder'' = parse_col (row ''lastOrder'')"
  by (simp_all add: rowToPatientSearch_def rowToPatient_def Let_def)

lemma has_key_unique: "has_key k r \<Longrightarrow> has_key k' r \<Longrightarrow> k = k'"
  by (cases "r ''patientKey''") (auto simp: has_key_def)

lemma list_ex_other_key:
  "k \<noteq> k' \<Longrightarrow> list_ex (has_key k) (filter (\<lambda>r. \<not> has_key k' r) db) = list_ex (has_key k) db"
  by (auto simp: list_ex_iff dest: has_key_unique)

lemma delete_keys_table:
  "snd (delete_keys ks db) = filter (\<lambda>r. \<forall>k \<in> set ks. \<not> has_key k r) db"
proof (induction ks arbitrary: db)
  case Nil
  then show ?case by simp
next
  case (Cons k ks)
  have "snd (delete_keys (k # ks) db) = snd (delete_keys ks (filter (\<lambda>r. \<not> has_key k r) db))"
    by (simp add: Let_def split_beta)
  also have "\<dots> = filter (\<lambda>r. \<forall>k' \<in> set ks. \<not> has_key k' r) (filter (\<lambda>r. \<not> has_key k r) db)"
    by (rule Cons.IH)
  also have "\<dots> = filter (\<lambda>r. \<forall>k' \<in> set (k # ks). \<not> has_key k' r) db"
    by (auto intro: filter_cong)
  finally show ?case .
qed

lemma delete_keys_results:
  "distinct ks \<Longrightarrow>
   fst (delete_keys ks db) =
     map (\<lambda>k. (k, if list_ex (has_key k) db then ''SUCCESS'' else ''NOT_FOUND'')) ks"
proof (induction ks arbitrary: db)
  case Nil
  then show ?case by simp
next
  case (Cons k ks)
  let ?db = "filter (\<lambda>r. \<not> has_key k r) db"
  from Cons.prems have d: "distinct ks" and nk: "k \<notin> set ks" by auto
  have "fst (delete_keys ks ?db) =
      map (\<lambda>k'. (k', if list_ex (has_key k') ?db then ''SUCCESS'' else ''NOT_FOUND'')) ks"
    by (rule Cons.IH [OF d])
  also have "\<dots> = map (\<lambda>k'. (k', if list_ex (has_key k') db then ''SUCCESS'' else ''NOT_FOUND'')) ks"
  proof (intro map_cong refl)
    fix k' assume "k' \<in> set ks"
    with nk have "k' \<noteq> k" by auto
    from list_ex_other_key [OF this, of db]
    show "(k', if list_ex (has_key k') ?db then ''SUCCESS'' else ''NOT_FOUND'') =
          (k', if list_ex (has_key k') db then ''SUCCESS'' else ''NOT_FOUND'')"
      by simp
  qed
  finally show ?case
    by (simp add: Let_def split_beta)
qed

lemma delete_keys_keys: "map fst (fst (delete_keys ks db)) = ks"
  by (induction ks arbitrary: db) (simp_all add: Let_def split_beta)

lemma getPatient_api_404:
  "\<forall>r \<in> set db. \<not> has_key k r \<Longrightarrow>
     getPatient_api k db = handleError 404 ''Patient not found'' JNull JNull"
proof -
  assume "\<forall>r \<in> set db. \<not> has_key k r"
  then have "find (has_key k) db = None"
    by (simp add: find_None_iff)
  then show ?thesis by (simp add: getPatient_api_def)
qed

lemma patch_example_fields:
  "collect_fields (JObj [(''isPinned'', JBool False), (''insurance'', JNull)]) patch_steps [] =
     Inr [(''insurance'', SNull), (''isPinned'', SInt 0)]"
  by (simp add: patch_steps_def json_param_def)

lemma patch_example_status:
  "res_status (fst (patchPatient example_env ''p1''
      (JObj [(''isPinned'', JBool False), (''insurance'', JNull)]) [example_row])) = 200"
  by (simp add: patchPatient_def js_or_def patch_example_fields select_by_id_def example_has_id
        sql_update_def not_null_ok_def assign_def column_affinity_def example_row_columns)

subsection \<open>The audit metadata under PATCH\<close>

lemma patch_assign_metadata:
  assumes "collect_fields b patch_steps [] = Inr fs"
  shows "assign (fs @ [(''metadata'', SJson v)]) row ''metadata'' = SJson v"
proof -
  let ?sf = "concat (map (step_fields b) patch_steps)"
  from collect_fields_Inr [OF assms] have fs_eq: "fs = ?sf" by simp
  have dist_sf: "distinct (map fst ?sf)"
    by (rule distinct_step_fields [OF patch_columns_distinct])
  have notin: "''metadata'' \<notin> fst ` set ?sf"
    using fst_step_fields [of b patch_steps] metadata_not_patch_column by blast
  with dist_sf have dist: "distinct (map fst (fs @ [(''metadata'', SJson v)]))"
    by (simp add: fs_eq)
  from notin have "map_of fs ''metadata'' = None"
    by (simp add: fs_eq map_of_eq_None_iff)
  then have "map_of (fs @ [(''metadata'', SJson v)]) ''metadata'' = Some (SJson v)"
    by (simp add: map_add_def)
  then show ?thesis
    by (simp only: assign_distinct [OF dist] option.case) (simp add: column_affinity_def)
qed

text \<open>
  PATCH fetches the stored metadata before it writes. When a PATCH is accepted and the
  stored metadata of the patient has a createdAt and a createdBy, every row of the
  patient has them unchanged afterwards, with updatedAt the time of the PATCH and
  updatedBy its caller (the X-User header, or \<open>system\<close>).
\<close>

lemma patchPatient_preserves_created:
  assumes "patchPatient e i body db = (r, db')" and "res_status r = 200"
    and "select_by_id db i = Some mRow" and "mRow ''metadata'' = SJson m"
    and "truthy (get m ''createdAt'')" and "truthy (get m ''createdBy'')"
  shows "\<forall>n < length db. has_id i (db ! n) \<longrightarrow>
           (\<exists>m'. (db' ! n) ''metadata'' = SJson m' \<and>
                 get m' ''createdAt'' = get m ''createdAt'' \<and>
                 get m' ''createdBy'' = get m ''createdBy'' \<and>
                 get m' ''updatedAt'' = JStr (env_now e) \<and>
                 get m' ''updatedBy'' = JStr (str_or (env_user e) ''system''))"
proof -
  from assms(1,2) obtain fs mRow' where
    fs: "collect_fields (js_or body (JObj [])) patch_steps [] = Inr fs" and
    sel: "select_by_id db i = Some mRow'" and
    db': "db' = map (\<lambda>row. if has_id i row
                 then assign (fs @ [(''metadata'', SJson (merged_meta e (existing_meta mRow')))]) row
                 else row) db"
    by (rule patchPatient_200)
  from sel assms(3) have "mRow' = mRow" by simp
  with assms(4) have em: "existing_meta mRow' = m"
    by (simp add: existing_meta_def)
  have mm: "get (merged_meta e m) ''createdAt'' = get m ''createdAt''"
    "get (merged_meta e m) ''createdBy'' = get m ''createdBy''"
    "get (merged_meta e m) ''updatedAt'' = JStr (env_now e)"
    "get (merged_meta e m) ''updatedBy'' = JStr (str_or (env_user e) ''system'')"
    using assms(5,6) by (simp_all add: merged_meta_def Let_def js_or_def)
  show ?thesis
    using mm by (simp add: db' patch_assign_metadata [OF fs] em)
qed

lemma patchPatient_preserves_created_example:
  "parse_col ((snd (patchPatient example_env ''p1''
      (JObj [(''isPinned'', JBool False), (''insurance'', JNull)]) [example_row]) ! 0) ''metadata'') =
     JObj [(''createdAt'', JStr ''2024-01-01T00:00:00.000Z''), (''createdBy'', JStr ''alice''),
           (''updatedAt'', JStr ''2024-06-30T12:00:00.000Z''), (''updatedBy'', JStr ''bob'')]"
  by (simp add: patchPatient_def js_or_def patch_example_fields select_by_id_def example_has_id
        sql_update_def not_null_ok_def assign_def column_affinity_def example_row_columns
        merged_meta_def existing_meta_def example_env_def str_or_def Let_def)

subsection \<open>The claims\<close>

text \<open>
  C10. A POST, PUT or PATCH request whose content type is not application/json is
  answered 415 with the error code INVALID_CONTENT_TYPE, unless its path starts with
  /api/apic/: such a request is passed on whatever its method and content type.
\<close>

theorem requireJson_unsupported_media_type:
  "(startsWith (req_path req) ''/api/apic/'' \<longrightarrow> requireJson req = Next) \<and>
   (\<not> startsWith (req_path req) ''/api/apic/'' \<and>
    toUpperCase (req_method req) \<in> {''POST'', ''PUT'', ''PATCH''} \<and> \<not> req_is_json req \<longrightarrow>
      (\<exists>r. requireJson req = Respond r \<and> res_status r = 415 \<and>
           get (res_body r) ''code'' = JNum 415 \<and>
           get (res_body r) ''errorCode'' = JStr ''INVALID_CONTENT_TYPE''))"
  by (simp add: requireJson_def handleError_def)

theorem requireJson_unsupported_media_type_witness:
  "requireJson \<lparr>req_method = ''post'', req_path = ''/api/apic/token'', req_is_json = False\<rparr> = Next \<and>
   (\<exists>r. requireJson \<lparr>req_method = ''patch'', req_path = ''/api/v1/patients/p1'',
                       req_is_json = False\<rparr> = Respond r \<and> res_status r = 415 \<and>
        get (res_body r) ''code'' = JNum 415 \<and>
        get (res_body r) ''errorCode'' = JStr ''INVALID_CONTENT_TYPE'')"
  using requireJson_unsupported_media_type
          [of "\<lparr>req_method = ''post'', req_path = ''/api/apic/token'', req_is_json = False\<rparr>"]
        requireJson_unsupported_media_type
          [of "\<lparr>req_method = ''patch'', req_path = ''/api/v1/patients/p1'', req_is_json = False\<rparr>"]
  by (simp add: startsWith_def toUpperCase_def upper_char_def)

text \<open>
  C5. patchPatient answers 400 and leaves the table as it was whenever the body has none
  of the twenty updatable keys, or has a gender outside MALE, FEMALE, OTHER, or has a
  status outside ACTIVE, DISCHARGED, PENDING.
\<close>

theorem patchPatient_validation:
  assumes "(\<forall>c \<in> set [''firstName'', ''lastName'', ''dateOfBirth'', ''gender'', ''phone'', ''email'',
      ''address'', ''roomNumber'', ''bedNumber'', ''admissionDate'', ''dischargeDate'',
      ''primaryPhysician'', ''payer'', ''insurance'', ''diagnosisCodes'', ''status'',
      ''isPinned'', ''team'', ''agency'', ''lastOrder'']. get body c = JUndefined)
     \<or> (get body ''gender'' \<noteq> JUndefined \<and>
          \<not> js_includes [''MALE'', ''FEMALE'', ''OTHER''] (get body ''gender''))
     \<or> (get body ''status'' \<noteq> JUndefined \<and>
          \<not> js_includes [''ACTIVE'', ''DISCHARGED'', ''PENDING''] (get body ''status''))"
  shows "\<exists>r. patchPatient e i body db = (r, db) \<and> res_status r = 400"
proof (cases "i = []")
  case True
  then show ?thesis by (simp add: patchPatient_def)
next
  case False
  let ?b = "js_or body (JObj [])"
  from assms consider
    (none) "\<forall>s \<in> set patch_steps. get ?b (step_column s) = JUndefined"
    | (gender) "get ?b ''gender'' \<noteq> JUndefined"
        "\<not> js_includes [''MALE'', ''FEMALE'', ''OTHER''] (get ?b ''gender'')"
    | (status) "get ?b ''status'' \<noteq> JUndefined"
        "\<not> js_includes [''ACTIVE'', ''DISCHARGED'', ''PENDING''] (get ?b ''status'')"
    unfolding get_body_or patch_columns [symmetric] by auto
  then show ?thesis
  proof cases
    case none
    then have "collect_fields ?b patch_steps [] = Inr []"
      by (rule collect_fields_absent)
    with False show ?thesis by (simp add: patchPatient_def)
  next
    case gender
    have "Enum ''gender'' [''MALE'', ''FEMALE'', ''OTHER''] ''Invalid gender'' \<in> set patch_steps"
      by (simp add: patch_steps_def)
    from collect_fields_rejects [OF this, of ?b "''Invalid gender''" "[]"] gender
    obtain r where r: "collect_fields ?b patch_steps [] = Inl r" by auto
    with collect_fields_error_400 [OF r] False show ?thesis
      by (simp add: patchPatient_def)
  next
    case status
    have "Enum ''status'' [''ACTIVE'', ''DISCHARGED'', ''PENDING''] ''Invalid status'' \<in> set patch_steps"
      by (simp add: patch_steps_def)
    from collect_fields_rejects [OF this, of ?b "''Invalid status''" "[]"] status
    obtain r where r: "collect_fields ?b patch_steps [] = Inl r" by auto
    with collect_fields_error_400 [OF r] False show ?thesis
      by (simp add: patchPatient_def)
  qed
qed

theorem patchPatient_validation_witness:
  "(\<exists>r. patchPatient example_env ''p1'' (JObj []) [example_row] = (r, [example_row]) \<and>
        res_status r = 400) \<and>
   (\<exists>r. patchPatient example_env ''p1'' (JObj [(''gender'', JStr ''female'')]) [example_row] =
          (r, [example_row]) \<and> res_status r = 400) \<and>
   (\<exists>r. patchPatient example_env ''p1'' (JObj [(''isPinned'', JBool True), (''status'', JNull)])
          [example_row] = (r, [example_row]) \<and> res_status r = 400)"
  using patchPatient_validation
          [where body = "JObj []" and e = example_env and i = "''p1''" and db = "[example_row]"]
        patchPatient_validation
          [where body = "JObj [(''gender'', JStr ''female'')]" and e = example_env
             and i = "''p1''" and db = "[example_row]"]
        patchPatient_validation
          [where body = "JObj [(''isPinned'', JBool True), (''status'', JNull)]" and e = example_env
             and i = "''p1''" and db = "[example_row]"]
  by (simp add: js_includes_def)

text \<open>
  C6 (amended). When a PATCH is accepted (status 200) the patient exists, and in each of
  its rows every updatable key present in the body has been written to its column
  whatever its truthiness (\<open>isPinned: false\<close> stores 0, \<open>insurance: null\<close> stores
  NULL), while the column of every absent key, and every column that is not updatable
  (metadata apart), is as it was. The claim as stated fails for the two enum-checked
  keys: \<open>gender: null\<close> and \<open>status: null\<close> are present, yet the request is
  answered 400 and nothing is written.
\<close>

theorem patchPatient_writes_present_keys:
  assumes "patchPatient e i body db = (r, db')" and "res_status r = 200"
  shows "(\<exists>row \<in> set db. has_id i row) \<and> length db' = length db \<and>
     (\<forall>n < length db.
        (\<not> has_id i (db ! n) \<longrightarrow> db' ! n = db ! n) \<and>
        (has_id i (db ! n) \<longrightarrow>
           (\<forall>s \<in> set patch_steps.
              (db' ! n) (step_column s) =
                (if get body (step_column s) = JUndefined then (db ! n) (step_column s)
                 else column_affinity (step_column s) (step_value s (get body (step_column s))))) \<and>
           (\<forall>c. c \<notin> step_column ` set patch_steps \<and> c \<noteq> ''metadata'' \<longrightarrow>
                (db' ! n) c = (db ! n) c)))"
proof -
  let ?b = "js_or body (JObj [])"
  from assms obtain fs mRow where
    fs: "collect_fields ?b patch_steps [] = Inr fs" and
    sel: "select_by_id db i = Some mRow" and
    db': "db' = map (\<lambda>row. if has_id i row
                 then assign (fs @ [(''metadata'', SJson (merged_meta e (existing_meta mRow)))]) row
                 else row) db"
    by (rule patchPatient_200)
  let ?m = "(''metadata'', SJson (merged_meta e (existing_meta mRow)))"
  let ?sf = "concat (map (step_fields ?b) patch_steps)"
  from collect_fields_Inr [OF fs] have fs_eq: "fs = ?sf" by simp
  have dist_sf: "distinct (map fst ?sf)"
    by (rule distinct_step_fields [OF patch_columns_distinct])
  have "''metadata'' \<notin> fst ` set ?sf"
    using fst_step_fields [of ?b patch_steps] metadata_not_patch_column by blast
  with dist_sf have dist: "distinct (map fst (fs @ [?m]))"
    by (simp add: fs_eq)
  have exists: "\<exists>row \<in> set db. has_id i row"
    using sel by (auto simp: select_by_id_def find_Some_iff)
  have step: "assign (fs @ [?m]) row (step_column s) =
        (if get body (step_column s) = JUndefined then row (step_column s)
         else column_affinity (step_column s) (step_value s (get body (step_column s))))"
    if "s \<in> set patch_steps" for s row
  proof -
    from that metadata_not_patch_column have ne: "step_column s \<noteq> ''metadata''"
      by (metis image_eqI)
    have "map_of (fs @ [?m]) (step_column s) = map_of ?sf (step_column s)"
      using ne by (simp add: fs_eq map_add_def split: option.split)
    also have "\<dots> = (if get body (step_column s) = JUndefined then None
                     else Some (step_value s (get body (step_column s))))"
      using map_of_step_fields_in [OF patch_columns_distinct that, of ?b]
      by (simp add: get_body_or)
    finally show ?thesis
      by (simp add: assign_distinct [OF dist])
  qed
  have other: "assign (fs @ [?m]) row c = row c"
    if "c \<notin> step_column ` set patch_steps" and "c \<noteq> ''metadata''" for c row
  proof -
    from that have "map_of (fs @ [?m]) c = None"
      by (simp add: fs_eq map_add_def map_of_step_fields_notin split: option.split)
    then show ?thesis by (simp only: assign_distinct [OF dist] option.case)
  qed
  show ?thesis
    using exists step other by (simp add: db')
qed

theorem patchPatient_writes_present_keys_witness:
  "res_status (fst (patchPatient example_env ''p1''
      (JObj [(''isPinned'', JBool False), (''insurance'', JNull)]) [example_row])) = 200 \<and>
   (snd (patchPatient example_env ''p1''
      (JObj [(''isPinned'', JBool False), (''insurance'', JNull)]) [example_row]) ! 0) ''isPinned'' = SInt 0 \<and>
   (snd (patchPatient example_env ''p1''
      (JObj [(''isPinned'', JBool False), (''insurance'', JNull)]) [example_row]) ! 0) ''insurance'' = SNull \<and>
   (snd (patchPatient example_env ''p1''
      (JObj [(''isPinned'', JBool False), (''insurance'', JNull)]) [example_row]) ! 0) ''firstName'' = SText ''Ann''"
proof -
  let ?body = "JObj [(''isPinned'', JBool False), (''insurance'', JNull)]"
  let ?R = "patchPatient example_env ''p1'' ?body [example_row]"
  have run: "?R = (fst ?R, snd ?R)" by simp
  note T = patchPatient_writes_present_keys [OF run patch_example_status]
  from T have row: "\<forall>s \<in> set patch_steps.
      (snd ?R ! 0) (step_column s) =
        (if get ?body (step_column s) = JUndefined then example_row (step_column s)
         else column_affinity (step_column s) (step_value s (get ?body (step_column s))))"
    using example_has_id by simp
  have "Flag ''isPinned'' \<in> set patch_steps" "Json ''insurance'' \<in> set patch_steps"
       "Raw ''firstName'' \<in> set patch_steps"
    by (simp_all add: patch_steps_def)
  with row have "(snd ?R ! 0) ''isPinned'' = SInt 0" "(snd ?R ! 0) ''insurance'' = SNull"
      "(snd ?R ! 0) ''firstName'' = SText ''Ann''"
    by (force simp: column_affinity_def json_param_def example_row_columns)+
  with patch_example_status show ?thesis by simp
qed

theorem patchPatient_gender_null_counterexample:
  "get (JObj [(''gender'', JNull)]) ''gender'' \<noteq> JUndefined \<and>
   has_id ''p1'' example_row \<and>
   example_row ''gender'' = SText ''FEMALE'' \<and>
   patchPatient example_env ''p1'' (JObj [(''gender'', JNull)]) [example_row] =
     (handleError 400 ''Invalid gender'' JNull JNull, [example_row])"
  by (simp add: example_has_id example_row_columns patchPatient_def js_or_def patch_steps_def
        js_includes_def)

text \<open>
  C1. The claim holds of PATCH (above) and fails of PUT. PUT never reads the stored
  metadata: it takes createdAt and createdBy from the request body's metadata and, when
  the body has none, from the clock and the caller of the PUT itself. Here a patient
  created on 2024-01-01 by alice is replaced on 2024-06-30 by bob with a body that has no
  metadata: the stored createdAt and createdBy become those of the PUT.
\<close>

theorem replacePatient_overwrites_created:
  "parse_col (example_row ''metadata'') =
     JObj [(''createdAt'', JStr ''2024-01-01T00:00:00.000Z''), (''createdBy'', JStr ''alice''),
           (''updatedAt'', JStr ''2024-01-01T00:00:00.000Z''), (''updatedBy'', JStr ''alice'')] \<and>
   res_status (fst (replacePatient example_env ''p1'' example_put_body [example_row])) = 200 \<and>
   parse_col ((snd (replacePatient example_env ''p1'' example_put_body [example_row]) ! 0) ''metadata'') =
     JObj [(''updatedAt'', JStr ''2024-06-30T12:00:00.000Z''), (''updatedBy'', JStr ''bob''),
           (''createdAt'', JStr ''2024-06-30T12:00:00.000Z''), (''createdBy'', JStr ''bob'')]"
  by (simp add: example_put example_row_columns assign_put_params)
     (simp add: put_metadata_def example_put_body_def example_env_def js_or_def js_and_def
        str_or_def Let_def)

text \<open>
  C2. A create of the later generation that passes validation under a fresh id, with an
  insurance object naming a provider (and no displayName of its own) or, absent an
  insurance, a payer object naming a plan, stores a row whose list-item projection has a
  non-null primaryPayer with that name as displayName. The name is a supplied one: a
  non-empty string. The row is in the table when the handler's last callback fails on
  \<^verbatim>\<open>rowToPatientSearch\<close>, which is the outcome of every create that reaches the INSERT.
\<close>

theorem create_roundtrip_primaryPayer:
  assumes ids: "truthy (get body ''patientId'') \<or> truthy (get body ''id'')"
    and first: "truthy (get body ''firstName'')"
    and last: "truthy (get body ''lastName'')"
    and fmt: "format_errors body = []"
    and name: "n \<noteq> []"
    and shape:
      "(\<exists>kvs. get body ''insurance'' = JObj kvs \<and> get (JObj kvs) ''providerName'' = JStr n \<and>
             \<not> truthy (get (JObj kvs) ''displayName''))
       \<or> (\<not> truthy (get body ''insurance'') \<and>
           (\<exists>kvs. get body ''payer'' = JObj kvs \<and> get (JObj kvs) ''planName'' = JStr n))"
    and fresh: "\<not> list_ex (\<lambda>r. sql_eq (r ''id'') (text_affinity (bind (patient_id_later e body)))) db"
  shows "\<exists>row. createPatient_later e body db =
                 (Thrown ''ReferenceError: rowToPatientSearch is not defined'', db @ [row]) \<and>
           get (rowToPatientListItem (Some row)) ''primaryPayer'' \<noteq> JNull \<and>
           get (get (rowToPatientListItem (Some row)) ''primaryPayer'') ''displayName'' = JStr n"
proof -
  let ?row = "assign (insert_params (patient_later e body)) (\<lambda>c. SNull)"
  from shape have payer_or_ins: "truthy (get body ''payer'') \<or> truthy (get body ''insurance'')"
    by auto
  with ids first last fmt have "errors_later body = []"
    by (auto simp: errors_later_def)
  from createPatient_later_inserts [OF this first last fresh]
  have run: "createPatient_later e body db =
      (Thrown ''ReferenceError: rowToPatientSearch is not defined'', db @ [?row])" .
  from shape have obj: "\<exists>kvs. insuranceObj body = JObj kvs \<and>
       get (JObj kvs) ''providerName'' = JStr n \<and> \<not> truthy (get (JObj kvs) ''displayName'')"
    by (auto simp: insuranceObj_def payer_converts_def)
  then obtain kvs where ins: "insuranceObj body = JObj kvs"
    and pn: "get (JObj kvs) ''providerName'' = JStr n"
    and dn: "\<not> truthy (get (JObj kvs) ''displayName'')" by blast
  have col: "?row ''insurance'' = SJson (JObj kvs)"
    by (simp add: assign_insert_params patient_later_get ins json_param_def)
  have pp: "get (rowToPatientListItem (Some ?row)) ''primaryPayer'' =
     JObj [(''payerId'', js_or (get (JObj kvs) ''payerId'') (JStr ''payer-unknown'')),
           (''payerType'', js_or (get (JObj kvs) ''payerType'') (JStr ''Insurance'')),
           (''displayName'',
              js_or (js_or (get (JObj kvs) ''displayName'') (get (JObj kvs) ''providerName''))
                    (JStr ''Unknown''))]"
    by (rule listItem_primaryPayer [where row = ?row and ins = "JObj kvs"]) (simp_all add: col)
  have "get (get (rowToPatientListItem (Some ?row)) ''primaryPayer'') ''displayName'' = JStr n"
    unfolding pp using pn dn name by (simp add: js_or_def)
  moreover have "get (rowToPatientListItem (Some ?row)) ''primaryPayer'' \<noteq> JNull"
    unfolding pp by simp
  ultimately show ?thesis using run by blast
qed

theorem create_roundtrip_primaryPayer_witness:
  "(\<exists>row. createPatient_later example_env
       (JObj [(''patientId'', JStr ''pt-1''), (''firstName'', JStr ''Ann''), (''lastName'', JStr ''Lee''),
              (''insurance'', JObj [(''providerName'', JStr ''MockIns''), (''policyNumber'', JStr ''P123''),
                                   (''groupNumber'', JStr ''G1'')])]) [] =
          (Thrown ''ReferenceError: rowToPatientSearch is not defined'', [] @ [row]) \<and>
       get (rowToPatientListItem (Some row)) ''primaryPayer'' \<noteq> JNull \<and>
       get (get (rowToPatientListItem (Some row)) ''primaryPayer'') ''displayName'' = JStr ''MockIns'') \<and>
   (\<exists>row. createPatient_later example_env
       (JObj [(''patientId'', JStr ''pt-2''), (''firstName'', JStr ''Bo''), (''lastName'', JStr ''Ray''),
              (''payer'', JObj [(''payerTypeName'', JStr ''Medicare''), (''planName'', JStr ''Plan A''),
                               (''planId'', JStr ''A-1''), (''groupNumber'', JStr ''G2'')])])
       [example_row] =
          (Thrown ''ReferenceError: rowToPatientSearch is not defined'', [example_row] @ [row]) \<and>
       get (rowToPatientListItem (Some row)) ''primaryPayer'' \<noteq> JNull \<and>
       get (get (rowToPatientListItem (Some row)) ''primaryPayer'') ''displayName'' = JStr ''Plan A'')"
  using create_roundtrip_primaryPayer
          [where body = "JObj [(''patientId'', JStr ''pt-1''), (''firstName'', JStr ''Ann''),
              (''lastName'', JStr ''Lee''),
              (''insurance'', JObj [(''providerName'', JStr ''MockIns''), (''policyNumber'', JStr ''P123''),
                                   (''groupNumber'', JStr ''G1'')])]"
             and n = "''MockIns''" and e = example_env and db = "[]"]
        create_roundtrip_primaryPayer
          [where body = "JObj [(''patientId'', JStr ''pt-2''), (''firstName'', JStr ''Bo''),
              (''lastName'', JStr ''Ray''),
              (''payer'', JObj [(''payerTypeName'', JStr ''Medicare''), (''planName'', JStr ''Plan A''),
                               (''planId'', JStr ''A-1''), (''groupNumber'', JStr ''G2'')])]"
             and n = "''Plan A''" and e = example_env and db = "[example_row]"]
  by (simp add: format_errors_def patient_id_later_def js_or_def example_row_columns)

text \<open>
  C7. On the admin-shape create, a request that passes validation and supplies a
  firstName, lastName and dateOfBirth equal to those of a stored record is answered 409
  DUP_PATIENT and the table is unchanged. A 409 of this handler comes from the name and
  date-of-birth check only (a clash of keys is the store's error, a 500); the key
  conflict of the later generation carries another message, so no outcome of that
  handler equals this response. The triple is a supplied one: a request without a
  dateOfBirth is compared with NULL, which equals nothing in the store.
\<close>

theorem createPatient_duplicate_conflict:
  assumes ins: "truthy (get body ''insurance'')"
    and fmt: "format_errors body = []"
    and first: "get body ''firstName'' = JStr f" "f \<noteq> []"
    and last: "get body ''lastName'' = JStr l" "l \<noteq> []"
    and dob: "get body ''dateOfBirth'' = JStr d" "d \<noteq> []"
    and dup: "\<exists>row \<in> set db. row ''firstName'' = SText f \<and> row ''lastName'' = SText l \<and>
                row ''dateOfBirth'' = SText d"
  shows "createPatient e body db =
           (handleError 409 ''Patient already exists'' (JStr ''DUP_PATIENT'')
              (JArr [JStr (''Patient with name '' @ f @ '' '' @ l @ '' and DOB '' @ d
                           @ '' already exists'')]), db) \<and>
         (\<forall>e' body' db'. res_status (fst (createPatient e' body' db')) = 409 \<longrightarrow>
              list_ex (same_name_dob (new_patient e' (js_or body' (JObj [])))) db') \<and>
         (\<forall>e' body' db'. fst (createPatient_later e' body' db') \<noteq>
              Sent (fst (createPatient e body db)))"
proof -
  from first have b: "js_or body (JObj []) = body"
    by (intro js_or_body [of _ "''firstName''"]) simp
  have errs: "required_errors body '' is required'' @ format_errors body = []"
    using ins first last fmt by (simp add: required_errors_def)
  from dup obtain row where row: "row \<in> set db" "row ''firstName'' = SText f"
    "row ''lastName'' = SText l" "row ''dateOfBirth'' = SText d" by blast
  have "same_name_dob (new_patient e body) row"
    using row first last dob by (simp add: same_name_dob_def new_patient_get js_or_def)
  with row(1) have "list_ex (same_name_dob (new_patient e body)) db"
    unfolding list_ex_iff by blast
  moreover have "get (new_patient e body) ''dateOfBirth'' = JStr d"
    using dob by (simp add: new_patient_get js_or_def)
  ultimately have run: "createPatient e body db =
           (handleError 409 ''Patient already exists'' (JStr ''DUP_PATIENT'')
              (JArr [JStr (''Patient with name '' @ f @ '' '' @ l @ '' and DOB '' @ d
                           @ '' already exists'')]), db)"
    using errs first last
    by (simp add: createPatient_def b Let_def new_patient_get)
  show ?thesis
    unfolding run
    using createPatient_409_only_name_dob createPatient_later_not_name_conflict
    by (auto simp del: append_assoc)
qed

theorem createPatient_duplicate_conflict_witness:
  "createPatient example_env
     (JObj [(''firstName'', JStr ''Ann''), (''lastName'', JStr ''Lee''),
            (''dateOfBirth'', JStr ''1990-01-01''),
            (''insurance'', JObj [(''providerName'', JStr ''Other'')])]) [example_row] =
     (handleError 409 ''Patient already exists'' (JStr ''DUP_PATIENT'')
        (JArr [JStr ''Patient with name Ann Lee and DOB 1990-01-01 already exists'']),
      [example_row])"
  using createPatient_duplicate_conflict
          [where body = "JObj [(''firstName'', JStr ''Ann''), (''lastName'', JStr ''Lee''),
                 (''dateOfBirth'', JStr ''1990-01-01''),
                 (''insurance'', JObj [(''providerName'', JStr ''Other'')])]"
             and f = "''Ann''" and l = "''Lee''" and d = "''1990-01-01''"
             and e = example_env and db = "[example_row]"]
  by (simp add: format_errors_def example_row_columns)

text \<open>
  C3. The list response and every accepted search response report totalRecords as the
  number of rows that satisfy the WHERE predicate of the page scan, pagesCount as the
  ceiling of totalRecords over the page size in force, and only rows that satisfy that
  predicate, at most a page of them; on an empty table totalRecords and pagesCount are 0
  and the item list is empty.
\<close>

theorem page_count_consistent:
  "page_consistent (list_where qu) (list_pageSize qu) rowToPatient ''data'' db (listPatients qu db) \<and>
   get (res_body (listPatients qu db)) ''curentPageSize'' = JNum (list_pageSize qu) \<and>
   (res_status (searchPatients qu db) = 200 \<longrightarrow>
      page_consistent (search_where qu) (search_pageSize qu) rowToPatientSearch ''patients'' db
        (searchPatients qu db))"
proof (intro conjI)
  show "page_consistent (list_where qu) (list_pageSize qu) rowToPatient ''data'' db (listPatients qu db)"
    by (rule page_consistentI [where c = "fst (list_sort qu)" and d = "snd (list_sort qu)"
          and off = "(list_pageNo qu - 1) * list_pageSize qu"])
       (simp_all add: list_pageSize_range listPatients_def Let_def)
next
  show "get (res_body (listPatients qu db)) ''curentPageSize'' = JNum (list_pageSize qu)"
    by (simp add: listPatients_def Let_def)
next
  show "res_status (searchPatients qu db) = 200 \<longrightarrow>
      page_consistent (search_where qu) (search_pageSize qu) rowToPatientSearch ''patients'' db
        (searchPatients qu db)"
  proof
    assume ok: "res_status (searchPatients qu db) = 200"
    then have run: "searchPatients qu db =
        \<lparr>res_status = 200, res_location = None,
         res_body = JObj
           [(''patients'', JArr (map (\<lambda>r. rowToPatientSearch (Some r))
               (scan (search_where qu) (fst (search_sort qu)) (snd (search_sort qu))
                  (search_pageSize qu) ((search_pageNo qu - 1) * search_pageSize qu) db))),
            (''totalRecords'', JNum (int (count_rows (search_where qu) db))),
            (''pageNo'', JNum (search_pageNo qu)),
            (''pagesCount'', JNum (math_ceil_div (count_rows (search_where qu) db) (search_pageSize qu)))]\<rparr>"
      by (simp add: searchPatients_def Let_def split: if_splits)
    show "page_consistent (search_where qu) (search_pageSize qu) rowToPatientSearch ''patients'' db
        (searchPatients qu db)"
      unfolding run
      by (rule page_consistentI [where c = "fst (search_sort qu)" and d = "snd (search_sort qu)"
            and off = "(search_pageNo qu - 1) * search_pageSize qu"])
         (simp_all add: search_pageSize_range)
  qed
qed

theorem page_count_consistent_witness:
  "get (res_body (listPatients example_query [])) ''totalRecords'' = JNum 0 \<and>
   get (res_body (listPatients example_query [])) ''pagesCount'' = JNum 0 \<and>
   get (res_body (listPatients example_query [])) ''data'' = JArr [] \<and>
   res_status (searchPatients example_query [example_row]) = 200 \<and>
   get (res_body (searchPatients example_query [example_row])) ''totalRecords'' = JNum 1 \<and>
   get (res_body (searchPatients example_query [example_row])) ''pagesCount'' = JNum 1"
proof -
  have n: "count_rows (search_where example_query) [example_row] = 1"
    by (simp add: count_rows_def search_where_def query_text_def example_query_def trim_def)
  have ps: "search_pageSize example_query = 25"
    by (simp add: search_pageSize_def example_query_def)
  from page_count_consistent [of example_query "[]"]
  have "get (res_body (listPatients example_query [])) ''totalRecords'' = JNum 0 \<and>
        get (res_body (listPatients example_query [])) ''pagesCount'' = JNum 0 \<and>
        get (res_body (listPatients example_query [])) ''data'' = JArr []"
    by (simp add: page_consistent_def Let_def count_rows_def)
  moreover from page_count_consistent [of example_query "[example_row]"] example_search_ok
  have "get (res_body (searchPatients example_query [example_row])) ''totalRecords'' = JNum 1 \<and>
        get (res_body (searchPatients example_query [example_row])) ''pagesCount'' = JNum 1"
    by (simp add: page_consistent_def Let_def n ps)
  ultimately show ?thesis using example_search_ok by simp
qed

text \<open>
  C4. A sortBy value outside the allow-list never reaches the ORDER BY clause. The
  strict endpoints (\<^verbatim>\<open>GET /api/patients/:shipToId\<close>, \<^verbatim>\<open>GET /api/v1/patients/search\<close>)
  answer such a value with a validation error and run no query; the lenient list answers
  as if no sortBy had been sent, sorting by firstName. Whatever the request, the column
  and the direction of the ORDER BY come from a fixed set of literals. A sortBy value is
  a non-empty string: an empty one is read as absent by every endpoint.
\<close>

theorem sortBy_allow_list:
  "(q_sortBy qu = Some s \<and> s \<noteq> [] \<and> shipToId \<noteq> [] \<and>
    s \<notin> set [''firstName'', ''lastName'', ''patientId'', ''team''] \<longrightarrow>
      res_status (searchByShipTo shipToId qu db) = 400 \<and>
      get (res_body (searchByShipTo shipToId qu db)) ''errorCode'' = JStr ''BAD_REQUEST'' \<and>
      (\<exists>err. shipTo_sort qu = Inl err)) \<and>
   (q_sortBy qu = Some s \<and> s \<noteq> [] \<and>
    s \<notin> set [''LAST_NAME'', ''FIRST_NAME'', ''TEAM'', ''ADDRESS'', ''PATIENT_ID''] \<longrightarrow>
      res_status (searchPatients qu db) \<in> {400, 401}) \<and>
   (q_sortBy qu = Some s \<and>
    s \<notin> set [''firstName'', ''lastName'', ''dateOfBirth'', ''admissionDate''] \<longrightarrow>
      fst (list_sort qu) = ''firstName'' \<and>
      listPatients qu db = listPatients (qu\<lparr>q_sortBy := None\<rparr>) db) \<and>
   (\<forall>c d. shipTo_sort qu = Inr (c, d) \<longrightarrow>
      c \<in> {''firstName'', ''lastName'', ''patientId'', ''teamName''} \<and> d \<in> {''ASC'', ''DESC''}) \<and>
   fst (search_sort qu) \<in> {''lastName'', ''firstName'', ''id'', ''team'', ''address''} \<and>
   snd (search_sort qu) \<in> {''ASC'', ''DESC''} \<and>
   fst (list_sort qu) \<in> {''firstName'', ''lastName'', ''dateOfBirth'', ''admissionDate''} \<and>
   snd (list_sort qu) \<in> {''ASC'', ''DESC''}"
proof (intro conjI impI allI)
  assume a: "q_sortBy qu = Some s \<and> s \<noteq> [] \<and> shipToId \<noteq> [] \<and>
    s \<notin> set [''firstName'', ''lastName'', ''patientId'', ''team'']"
  then have a': "q_sortBy qu = Some s" "s \<noteq> []"
    "s \<notin> set [''firstName'', ''lastName'', ''patientId'', ''team'']" "shipToId \<noteq> []"
    by blast+
  note run = searchByShipTo_unregistered [OF a', of db]
  show "res_status (searchByShipTo shipToId qu db) = 400"
    unfolding run by simp
  show "get (res_body (searchByShipTo shipToId qu db)) ''errorCode'' = JStr ''BAD_REQUEST''"
    unfolding run by (simp add: handleError_def)
  from a show "\<exists>err. shipTo_sort qu = Inl err"
    by (simp add: shipTo_sort_def str_or_def Let_def)
next
  assume "q_sortBy qu = Some s \<and> s \<noteq> [] \<and>
    s \<notin> set [''LAST_NAME'', ''FIRST_NAME'', ''TEAM'', ''ADDRESS'', ''PATIENT_ID'']"
  then have "q_sortBy qu = Some s" "s \<noteq> []"
    "s \<notin> set [''LAST_NAME'', ''FIRST_NAME'', ''TEAM'', ''ADDRESS'', ''PATIENT_ID'']"
    by blast+
  then show "res_status (searchPatients qu db) \<in> {400, 401}"
    by (rule searchPatients_unregistered)
next
  assume a: "q_sortBy qu = Some s \<and>
    s \<notin> set [''firstName'', ''lastName'', ''dateOfBirth'', ''admissionDate'']"
  then have a': "q_sortBy qu = Some s"
    "s \<notin> set [''firstName'', ''lastName'', ''dateOfBirth'', ''admissionDate'']"
    by blast+
  from a' show "fst (list_sort qu) = ''firstName''"
    by (rule list_sort_unregistered(2))
  from a' show "listPatients qu db = listPatients (qu\<lparr>q_sortBy := None\<rparr>) db"
    by (rule listPatients_unregistered)
next
  fix c d assume "shipTo_sort qu = Inr (c, d)"
  then show "c \<in> {''firstName'', ''lastName'', ''patientId'', ''teamName''}"
    and "d \<in> {''ASC'', ''DESC''}"
    using shipTo_sort_range by blast+
qed (rule search_sort_range list_sort_range)+

theorem sortBy_allow_list_witness:
  "res_status (searchByShipTo ''1563073''
      (example_query\<lparr>q_sortBy := Some ''id; DROP TABLE patients''\<rparr>) [example_row]) = 400 \<and>
   res_status (searchPatients
      (example_query\<lparr>q_sortBy := Some ''id; DROP TABLE patients''\<rparr>) [example_row]) \<in> {400, 401} \<and>
   fst (list_sort (example_query\<lparr>q_sortBy := Some ''id; DROP TABLE patients''\<rparr>)) = ''firstName'' \<and>
   listPatients (example_query\<lparr>q_sortBy := Some ''id; DROP TABLE patients''\<rparr>) [example_row] =
     listPatients (example_query\<lparr>q_sortBy := None\<rparr>) [example_row]"
  using sortBy_allow_list
          [where qu = "example_query\<lparr>q_sortBy := Some ''id; DROP TABLE patients''\<rparr>"
             and s = "''id; DROP TABLE patients''" and shipToId = "''1563073''"
             and db = "[example_row]"]
  by simp

text \<open>
  C8 (amended). On a row whose date of birth is a text and whose last order is an object
  with a text date, rowToPatientLegacy answers. A date of birth that is three parts
  joined by \<open>-\<close>, the first of four characters, becomes \<open>MM/DD/YYYY\<close>, and every other
  date of birth is passed through. A last-order date that is three parts joined by
  \<open>-\<close> becomes \<open>MM/DD/YYYY\<close> as well, and one without \<open>-\<close> is passed through.
  rowToPatientSearch, the search projector of the admin-shape generation, passes both
  fields through as stored, whatever they are. The claim as stated fails twice:
  rowToPatientSearch reformats nothing, and rowToPatientLegacy rewrites every last-order
  date that contains \<open>-\<close>, also one that is not \<open>YYYY-MM-DD\<close>, from its first three
  parts (the date of birth is guarded against this, the last order is not).
\<close>

theorem legacy_date_format:
  assumes "row ''dateOfBirth'' = SText dob" and "row ''lastOrder'' = SJson (JObj kvs)"
    and "get (JObj kvs) ''date'' = JStr date"
  shows "\<exists>p. rowToPatientLegacy (Some row) = Inr p \<and>
     (\<forall>y m d. dob = y @ ''-'' @ m @ ''-'' @ d \<and> length y = 4 \<and>
              CHR ''-'' \<notin> set y \<and> CHR ''-'' \<notin> set m \<and> CHR ''-'' \<notin> set d \<longrightarrow>
        get p ''dob'' = JStr (m @ ''/'' @ d @ ''/'' @ y)) \<and>
     (\<not> (\<exists>y m d. dob = y @ ''-'' @ m @ ''-'' @ d \<and> length y = 4 \<and>
              CHR ''-'' \<notin> set y \<and> CHR ''-'' \<notin> set m \<and> CHR ''-'' \<notin> set d) \<longrightarrow>
        get p ''dob'' = JStr dob) \<and>
     (\<forall>y m d. date = y @ ''-'' @ m @ ''-'' @ d \<and>
              CHR ''-'' \<notin> set y \<and> CHR ''-'' \<notin> set m \<and> CHR ''-'' \<notin> set d \<longrightarrow>
        get (get p ''lastOrder'') ''date'' = JStr (m @ ''/'' @ d @ ''/'' @ y)) \<and>
     (CHR ''-'' \<notin> set date \<longrightarrow> get (get p ''lastOrder'') ''date'' = JStr date) \<and>
     get (rowToPatientSearch (Some row)) ''dob'' = JStr dob \<and>
     get (get (rowToPatientSearch (Some row)) ''lastOrder'') ''date'' = JStr date"
proof -
  from legacy_lastOrder_string_date [OF assms(3)]
  obtain lo where lo: "legacy_lastOrder (JObj kvs) = Inr lo" by blast
  from legacy_dob_string obtain fd where fd: "legacy_dob (JStr dob) = Inr fd" by blast
  from rowToPatientLegacy_dates [OF assms(1,2) lo fd]
  obtain p where p: "rowToPatientLegacy (Some row) = Inr p" "get p ''dob'' = fd"
    "get p ''lastOrder'' = lo" by blast
  have 1: "get p ''dob'' = JStr (m @ ''/'' @ d @ ''/'' @ y)"
    if "dob = y @ ''-'' @ m @ ''-'' @ d" "length y = 4"
       "CHR ''-'' \<notin> set y" "CHR ''-'' \<notin> set m" "CHR ''-'' \<notin> set d" for y m d
    using legacy_dob_ymd [OF that(3-5) that(2)] fd p(2) that(1) by simp
  have 2: "get p ''dob'' = JStr dob"
    if "\<not> (\<exists>y m d. dob = y @ ''-'' @ m @ ''-'' @ d \<and> length y = 4 \<and>
              CHR ''-'' \<notin> set y \<and> CHR ''-'' \<notin> set m \<and> CHR ''-'' \<notin> set d)"
    using legacy_dob_other [OF that] fd p(2) by simp
  have 3: "get (get p ''lastOrder'') ''date'' = JStr (m @ ''/'' @ d @ ''/'' @ y)"
    if "date = y @ ''-'' @ m @ ''-'' @ d"
       "CHR ''-'' \<notin> set y" "CHR ''-'' \<notin> set m" "CHR ''-'' \<notin> set d" for y m d
    using legacy_lastOrder_ymd [OF assms(3) [unfolded that(1)] that(2-4)] lo p(3) by auto
  have 4: "get (get p ''lastOrder'') ''date'' = JStr date" if "CHR ''-'' \<notin> set date"
    using legacy_lastOrder_plain [OF assms(3) that] lo p(3) assms(3) by simp
  have 5: "get (rowToPatientSearch (Some row)) ''dob'' = JStr dob"
    "get (get (rowToPatientSearch (Some row)) ''lastOrder'') ''date'' = JStr date"
    using assms by (simp_all add: rowToPatientSearch_dates)
  from p(1) 1 2 3 4 5 show ?thesis by blast
qed

theorem legacy_date_format_witness:
  "\<exists>p. rowToPatientLegacy (Some example_order_row) = Inr p \<and>
        get p ''dob'' = JStr ''01/01/1990'' \<and>
        get (get p ''lastOrder'') ''date'' = JStr ''03/09/2024'' \<and>
        get (rowToPatientSearch (Some example_order_row)) ''dob'' = JStr ''1990-01-01'' \<and>
        get (get (rowToPatientSearch (Some example_order_row)) ''lastOrder'') ''date'' =
          JStr ''2024-03-09''"
proof -
  have cols: "example_order_row ''dateOfBirth'' = SText ''1990-01-01''"
    "example_order_row ''lastOrder'' =
       SJson (JObj [(''id'', JStr ''ORD-1''), (''date'', JStr ''2024-03-09''),
                    (''status'', JStr ''SHIPPED'')])"
    by (simp_all add: example_order_row_def example_row_columns)
  from legacy_date_format [OF cols, of "''2024-03-09''"]
  obtain p where p: "rowToPatientLegacy (Some example_order_row) = Inr p"
    and dob: "\<forall>y m d. ''1990-01-01'' = y @ ''-'' @ m @ ''-'' @ d \<and> length y = 4 \<and>
              CHR ''-'' \<notin> set y \<and> CHR ''-'' \<notin> set m \<and> CHR ''-'' \<notin> set d \<longrightarrow>
        get p ''dob'' = JStr (m @ ''/'' @ d @ ''/'' @ y)"
    and lo: "\<forall>y m d. ''2024-03-09'' = y @ ''-'' @ m @ ''-'' @ d \<and>
              CHR ''-'' \<notin> set y \<and> CHR ''-'' \<notin> set m \<and> CHR ''-'' \<notin> set d \<longrightarrow>
        get (get p ''lastOrder'') ''date'' = JStr (m @ ''/'' @ d @ ''/'' @ y)"
    and s: "get (rowToPatientSearch (Some example_order_row)) ''dob'' = JStr ''1990-01-01''"
      "get (get (rowToPatientSearch (Some example_order_row)) ''lastOrder'') ''date'' =
          JStr ''2024-03-09''"
    by auto
  from dob [rule_format, of "''1990''" "''01''" "''01''"]
  have "get p ''dob'' = JStr ''01/01/1990''" by simp
  moreover from lo [rule_format, of "''2024''" "''03''" "''09''"]
  have "get (get p ''lastOrder'') ''date'' = JStr ''03/09/2024''" by simp
  ultimately show ?thesis using p s by blast
qed

theorem date_format_counterexample:
  "example_order_row ''dateOfBirth'' = SText ''1990-01-01'' \<and>
   get (rowToPatientSearch (Some example_order_row)) ''dob'' = JStr ''1990-01-01'' \<and>
   get (get (rowToPatientSearch (Some example_order_row)) ''lastOrder'') ''date'' = JStr ''2024-03-09'' \<and>
   rowToPatientLegacy
     (Some (example_row(''lastOrder'' := SJson (JObj [(''date'', JStr ''2024-03'')])))) =
     Inr (JObj [(''patientId'', JStr ''p1''), (''firstName'', JStr ''Ann''), (''lastName'', JStr ''Lee''),
                (''dob'', JStr ''01/01/1990''), (''team'', JUndefined), (''isPinned'', JBool True),
                (''lastOrder'', JObj [(''date'', JStr ''03/undefined/2024'')]),
                (''payer'', JObj [(''payerTypeName'', JStr ''Private Insurance/Self Pay''),
                                  (''planName'', JStr ''MockIns''), (''planId'', JStr ''P123''),
                                  (''groupNumber'', JUndefined)])])"
proof -
  let ?row = "example_row(''lastOrder'' := SJson (JObj [(''date'', JStr ''2024-03'')]))"
  have lo: "legacy_lastOrder (JObj [(''date'', JStr ''2024-03'')]) =
      Inr (JObj [(''date'', JStr ''03/undefined/2024'')])"
    by (simp add: legacy_lastOrder_def Let_def part_def set_prop_def)
  have fd: "legacy_dob (JStr ''1990-01-01'') = Inr (JStr ''01/01/1990'')"
    using legacy_dob_ymd [of "''1990''" "''01''" "''01''"] by simp
  have nulls: "example_row ''payer'' = SNull" "example_row ''team'' = SNull"
    by (simp_all add: example_row_def)
  have "rowToPatientLegacy (Some ?row) =
     Inr (JObj [(''patientId'', JStr ''p1''), (''firstName'', JStr ''Ann''), (''lastName'', JStr ''Lee''),
                (''dob'', JStr ''01/01/1990''), (''team'', JUndefined), (''isPinned'', JBool True),
                (''lastOrder'', JObj [(''date'', JStr ''03/undefined/2024'')]),
                (''payer'', JObj [(''payerTypeName'', JStr ''Private Insurance/Self Pay''),
                                  (''planName'', JStr ''MockIns''), (''planId'', JStr ''P123''),
                                  (''groupNumber'', JUndefined)])])"
    by (simp add: rowToPatientLegacy_def rowToPatient_safe_def safeParse_def Let_def
          example_row_columns nulls lo fd js_or_def)
  then show ?thesis
    by (simp add: rowToPatientSearch_dates example_order_row_def example_row_columns)
qed

text \<open>
  C9. The bulk delete answers 200 whatever the keys, with one result per key in the
  order given; for a set of keys (no key twice) the status of a key is SUCCESS when a
  stored row had that key and NOT_FOUND otherwise; afterwards no row has any of the keys,
  the read by key answers 404 for each, and the rows of other keys are all still there.
\<close>

theorem deletePatients_partial_success:
  assumes "distinct keys"
  shows "\<exists>rs db'. deletePatients shipToId keys db =
           (\<lparr>res_status = 200, res_location = None,
             res_body = JObj [(''results'', JArr (map result_entry rs))]\<rparr>, db') \<and>
         rs = map (\<lambda>k. (k, if list_ex (has_key k) db then ''SUCCESS'' else ''NOT_FOUND'')) keys \<and>
         (\<forall>k \<in> set keys. \<not> list_ex (has_key k) db' \<and>
                          res_status (getPatient_api k db') = 404) \<and>
         (\<forall>r \<in> set db. (\<forall>k \<in> set keys. \<not> has_key k r) \<longrightarrow> r \<in> set db') \<and>
         set db' \<subseteq> set db"
proof -
  obtain rs db' where run: "delete_keys keys db = (rs, db')" by (cases "delete_keys keys db")
  from run delete_keys_results [OF assms, of db]
  have rs: "rs = map (\<lambda>k. (k, if list_ex (has_key k) db then ''SUCCESS'' else ''NOT_FOUND'')) keys"
    by simp
  from run delete_keys_table [of keys db]
  have db': "db' = filter (\<lambda>r. \<forall>k \<in> set keys. \<not> has_key k r) db" by simp
  have gone: "\<not> list_ex (has_key k) db' \<and> res_status (getPatient_api k db') = 404"
    if "k \<in> set keys" for k
  proof -
    from that have none: "\<forall>r \<in> set db'. \<not> has_key k r" by (auto simp: db')
    from getPatient_api_404 [OF none] none show ?thesis by (simp add: list_ex_iff)
  qed
  have "deletePatients shipToId keys db =
           (\<lparr>res_status = 200, res_location = None,
             res_body = JObj [(''results'', JArr (map result_entry rs))]\<rparr>, db')"
    by (simp add: deletePatients_def run)
  with rs gone db' show ?thesis by auto
qed

theorem deletePatients_partial_success_witness:
  "fst (deletePatients ''1483051'' [''keyA'', ''keyB''] [example_api_row ''keyA'' ''DEL001'']) =
     \<lparr>res_status = 200, res_location = None,
      res_body = JObj [(''results'',
        JArr [JObj [(''key'', JStr ''keyA''), (''status'', JStr ''SUCCESS'')],
              JObj [(''key'', JStr ''keyB''), (''status'', JStr ''NOT_FOUND'')]])]\<rparr> \<and>
   res_status (getPatient_api ''keyA''
      (snd (deletePatients ''1483051'' [''keyA'', ''keyB''] [example_api_row ''keyA'' ''DEL001'']))) = 404"
  using deletePatients_partial_success
          [where keys = "[''keyA'', ''keyB'']" and shipToId = "''1483051''"
             and db = "[example_api_row ''keyA'' ''DEL001'']"]
  by (auto simp: result_entry_def has_key_def example_api_row_def)

end
